theory Spec2Isabelle
  imports Complex_Main
begin

section \<open>Strings\<close>

text \<open>
  Texts are \<^typ>\<open>string\<close>, one \<^typ>\<open>char\<close> per byte of the UTF-8 text. The recogniser
  is built with the language list \<^verbatim>\<open>['en']\<close>; on ASCII text \<^verbatim>\<open>str.isalnum\<close>,
  \<^verbatim>\<open>str.upper\<close> and \<^verbatim>\<open>str.lower\<close> act as defined here: the letters and digits
  are the ASCII ones. What the filter does on a text outside ASCII is the subject of the
  section on Unicode text below, where the database of the interpreter is a parameter.
\<close>

definition isdigit :: "char \<Rightarrow> bool" where
  "isdigit c = (let n = (of_char c :: nat) in 48 \<le> n \<and> n \<le> 57)"

definition isupper :: "char \<Rightarrow> bool" where
  "isupper c = (let n = (of_char c :: nat) in 65 \<le> n \<and> n \<le> 90)"

definition islower :: "char \<Rightarrow> bool" where
  "islower c = (let n = (of_char c :: nat) in 97 \<le> n \<and> n \<le> 122)"

definition isalnum :: "char \<Rightarrow> bool" where
  "isalnum c = (isdigit c \<or> isupper c \<or> islower c)"

definition upper_char :: "char \<Rightarrow> char" where
  "upper_char c = (if islower c then char_of ((of_char c :: nat) - 32) else c)"

definition lower_char :: "char \<Rightarrow> char" where
  "lower_char c = (if isupper c then char_of ((of_char c :: nat) + 32) else c)"

definition upper :: "string \<Rightarrow> string" where
  "upper s = map upper_char s"

definition lower :: "string \<Rightarrow> string" where
  "lower s = map lower_char s"

text \<open>\<^verbatim>\<open>sep.join(xs)\<close>\<close>

fun join :: "'a list \<Rightarrow> 'a list list \<Rightarrow> 'a list" where
  "join sep [] = []"
| "join sep [x] = x"
| "join sep (x # y # ys) = x @ sep @ join sep (y # ys)"

text \<open>\<^verbatim>\<open>a or b\<close> on strings: the empty string is falsy.\<close>

definition str_or :: "'a list \<Rightarrow> 'a list \<Rightarrow> 'a list" where
  "str_or a b = (if a \<noteq> [] then a else b)"

text \<open>\<^verbatim>\<open>sub in s\<close>\<close>

fun startswith :: "string \<Rightarrow> string \<Rightarrow> bool" where
  "startswith s [] = True"
| "startswith [] (p # ps) = False"
| "startswith (c # cs) (p # ps) = (c = p \<and> startswith cs ps)"

fun str_in :: "string \<Rightarrow> string \<Rightarrow> bool" where
  "str_in sub [] = (sub = [])"
| "str_in sub (c # cs) = (startswith (c # cs) sub \<or> str_in sub cs)"

section \<open>Token filter\<close>

text \<open>
  One item of \<^verbatim>\<open>readtext(..., detail=1)\<close>: the corner points, the text and the
  confidence. A finite confidence is a rational number; the literal \<^verbatim>\<open>0.2\<close> is
  the threshold.
\<close>

type_synonym bbox = "(int \<times> int) list"
type_synonym ocr_item = "bbox \<times> string \<times> rat"

definition confidence_threshold :: rat where
  "confidence_threshold = 2 / 10"

text \<open>\<^verbatim>\<open>"".join(filter(str.isalnum, text)).upper()\<close>\<close>

definition clean :: "string \<Rightarrow> string" where
  "clean text = upper (filter isalnum text)"

subsection \<open>Service variant: the end of \<^verbatim>\<open>extract_text\<close>\<close>

definition texts_of :: "ocr_item list \<Rightarrow> string list" where
  "texts_of raw = [clean text. (_, text, conf) \<leftarrow> raw, conf \<ge> confidence_threshold]"

definition plate_text_of :: "ocr_item list \<Rightarrow> string" where
  "plate_text_of raw =
     str_or (join '' '' [t. t \<leftarrow> texts_of raw, t \<noteq> []]) ''No text detected''"

subsection \<open>Interactive variant: the filtering branch of \<^verbatim>\<open>detect_and_ocr\<close>\<close>

fun filter_loop :: "ocr_item list \<Rightarrow> string list \<Rightarrow> string list" where
  "filter_loop [] filtered_texts = filtered_texts"
| "filter_loop ((bbox, text, prob) # rest) filtered_texts =
     (if prob \<ge> confidence_threshold then
        (let cleaned_text = clean text in
         if cleaned_text \<noteq> [] then filter_loop rest (filtered_texts @ [cleaned_text])
         else filter_loop rest filtered_texts)
      else filter_loop rest filtered_texts)"

definition ocr_plate_text :: "ocr_item list \<Rightarrow> string" where
  "ocr_plate_text ocr_results =
     (if ocr_results = [] then ''OCR failed (EasyOCR found no text)''
      else
        (let filtered_texts = filter_loop ocr_results [] in
         if filtered_texts \<noteq> [] then join '' '' filtered_texts
         else ''OCR failed (Low confidence or non-alphanumeric)''))"

subsection \<open>The filter as the specification words it\<close>

definition kept_spans :: "ocr_item list \<Rightarrow> ocr_item list" where
  "kept_spans spans = filter (\<lambda>(_, _, conf). conf \<ge> 2 / 10) spans"

definition surviving :: "ocr_item list \<Rightarrow> string list" where
  "surviving spans =
     filter (\<lambda>t. t \<noteq> []) (map (\<lambda>(_, text, _). map upper_char (filter isalnum text)) (kept_spans spans))"

definition plate_reading_spec :: "string \<Rightarrow> ocr_item list \<Rightarrow> string" where
  "plate_reading_spec sentinel spans =
     (if surviving spans = [] then sentinel else join '' '' (surviving spans))"

section \<open>Token filter on Unicode text\<close>

text \<open>
  A Python string is a sequence of code points, and \<^verbatim>\<open>str.isalnum\<close> and
  \<^verbatim>\<open>str.upper\<close> read the Unicode database of the interpreter, which is not part of
  the repository. Here a text is a list of code points and the database is a parameter:
  which characters are alphanumeric, and what each character becomes in upper case
  (\<^verbatim>\<open>str.upper\<close> maps character by character, and one character may become several).
  The two filters are translated once more over such texts. The filters over
  \<^typ>\<open>string\<close> above are their restriction to ASCII texts.
\<close>

record unicode_db =
  db_isalnum :: "nat \<Rightarrow> bool"
  db_upper :: "nat \<Rightarrow> nat list"

type_synonym utext = "nat list"
type_synonym uitem = "bbox \<times> utext \<times> rat"

text \<open>An ASCII literal of the source, as code points.\<close>

definition codepoints :: "string \<Rightarrow> utext" where
  "codepoints s = map of_char s"

text \<open>\<^verbatim>\<open>"".join(filter(str.isalnum, text)).upper()\<close>\<close>

definition uclean :: "unicode_db \<Rightarrow> utext \<Rightarrow> utext" where
  "uclean U text = concat (map (db_upper U) (filter (db_isalnum U) text))"

definition utexts_of :: "unicode_db \<Rightarrow> uitem list \<Rightarrow> utext list" where
  "utexts_of U raw = [uclean U text. (_, text, conf) \<leftarrow> raw, conf \<ge> confidence_threshold]"

text \<open>The cleaned texts that are joined: \<^verbatim>\<open>t for t in texts if t\<close>.\<close>

definition ukept :: "unicode_db \<Rightarrow> uitem list \<Rightarrow> utext list" where
  "ukept U raw = [t. t \<leftarrow> utexts_of U raw, t \<noteq> []]"

definition uplate_text_of :: "unicode_db \<Rightarrow> uitem list \<Rightarrow> utext" where
  "uplate_text_of U raw =
     str_or (join (codepoints '' '') (ukept U raw)) (codepoints ''No text detected'')"

fun ufilter_loop :: "unicode_db \<Rightarrow> uitem list \<Rightarrow> utext list \<Rightarrow> utext list" where
  "ufilter_loop U [] filtered_texts = filtered_texts"
| "ufilter_loop U ((bbox, text, prob) # rest) filtered_texts =
     (if prob \<ge> confidence_threshold then
        (let cleaned_text = uclean U text in
         if cleaned_text \<noteq> [] then ufilter_loop U rest (filtered_texts @ [cleaned_text])
         else ufilter_loop U rest filtered_texts)
      else ufilter_loop U rest filtered_texts)"

definition uocr_plate_text :: "unicode_db \<Rightarrow> uitem list \<Rightarrow> utext" where
  "uocr_plate_text U ocr_results =
     (if ocr_results = [] then codepoints ''OCR failed (EasyOCR found no text)''
      else
        (let filtered_texts = ufilter_loop U ocr_results [] in
         if filtered_texts \<noteq> [] then join (codepoints '' '') filtered_texts
         else codepoints ''OCR failed (Low confidence or non-alphanumeric)''))"

text \<open>
  What the database of Python says on ASCII: the alphanumeric characters are the digits
  and the letters, and upper case moves a small letter to its capital and nothing else.
\<close>

definition ascii_isdigit :: "nat \<Rightarrow> bool" where
  "ascii_isdigit c = (48 \<le> c \<and> c \<le> 57)"

definition ascii_isupper :: "nat \<Rightarrow> bool" where
  "ascii_isupper c = (65 \<le> c \<and> c \<le> 90)"

definition ascii_islower :: "nat \<Rightarrow> bool" where
  "ascii_islower c = (97 \<le> c \<and> c \<le> 122)"

definition ascii_isalnum :: "nat \<Rightarrow> bool" where
  "ascii_isalnum c = (ascii_isdigit c \<or> ascii_isupper c \<or> ascii_islower c)"

definition ascii_upper :: "nat \<Rightarrow> nat" where
  "ascii_upper c = (if ascii_islower c then c - 32 else c)"

definition agrees_on_ascii :: "unicode_db \<Rightarrow> bool" where
  "agrees_on_ascii U =
     (\<forall>c<128. db_isalnum U c = ascii_isalnum c \<and> db_upper U c = [ascii_upper c])"

definition ascii_text :: "utext \<Rightarrow> bool" where
  "ascii_text text = (\<forall>c\<in>set text. c < 128)"

definition capitals_and_digits :: "utext \<Rightarrow> bool" where
  "capitals_and_digits t = (t \<noteq> [] \<and> (\<forall>c\<in>set t. ascii_isdigit c \<or> ascii_isupper c))"

text \<open>
  An excerpt of the database of Python 3: ASCII, and the two entries for U+01F0, the small
  letter j with caron. That letter is alphanumeric, and its upper case is the capital J
  followed by U+030C, the combining caron, which is not alphanumeric. No other code point
  is looked up where the excerpt is used.
\<close>

definition unicode_excerpt :: unicode_db where
  "unicode_excerpt =
     \<lparr>db_isalnum = (\<lambda>c. ascii_isalnum c \<or> c = 0x1F0),
      db_upper = (\<lambda>c. if c = 0x1F0 then [0x4A, 0x30C] else [ascii_upper c])\<rparr>"

section \<open>Images, boxes and regions\<close>

text \<open>
  Of a decoded image only its shape matters here: \<^verbatim>\<open>image_np.shape[0]\<close> rows and
  \<^verbatim>\<open>image_np.shape[1]\<close> columns of three channels. A box is the tuple
  \<^verbatim>\<open>(x1, y1, x2, y2)\<close> of integers the detector gives.
\<close>

record image =
  shape0 :: nat
  shape1 :: nat

type_synonym box = "int \<times> int \<times> int \<times> int"

text \<open>
  \<^verbatim>\<open>a[start:stop]\<close> on an axis of length \<open>n\<close>: a negative bound counts from the end,
  and every bound is clipped to \<open>0..n\<close>. The result is the list of the indices read.
\<close>

definition slice_bound :: "nat \<Rightarrow> int \<Rightarrow> nat" where
  "slice_bound n i = (if i < 0 then nat (max 0 (int n + i)) else min n (nat i))"

definition py_slice :: "nat \<Rightarrow> int \<Rightarrow> int \<Rightarrow> nat list" where
  "py_slice n start stop = [slice_bound n start ..< slice_bound n stop]"

text \<open>A crop \<^verbatim>\<open>image_np[a:b, c:d]\<close>, as the rows and columns of the image it holds.\<close>

record region =
  rows :: "nat list"
  cols :: "nat list"

definition size_of :: "region \<Rightarrow> nat" where
  "size_of r = length (rows r) * length (cols r) * 3"

text \<open>The padded rectangle \<^verbatim>\<open>(x1_pad, y1_pad, x2_pad, y2_pad)\<close> and the crop taken at it.\<close>

definition padded_rect :: "int \<Rightarrow> image \<Rightarrow> box \<Rightarrow> box" where
  "padded_rect padding image_np b =
     (case b of (x1, y1, x2, y2) \<Rightarrow>
        (max 0 (x1 - padding), max 0 (y1 - padding),
         min (int (shape1 image_np)) (x2 + padding), min (int (shape0 image_np)) (y2 + padding)))"

definition crop_image :: "int \<Rightarrow> image \<Rightarrow> box \<Rightarrow> region" where
  "crop_image padding image_np b =
     (case padded_rect padding image_np b of (x1_pad, y1_pad, x2_pad, y2_pad) \<Rightarrow>
        \<lparr>rows = py_slice (shape0 image_np) y1_pad y2_pad,
         cols = py_slice (shape1 image_np) x1_pad x2_pad\<rparr>)"

section \<open>Time\<close>

record datetime =
  year :: nat
  month :: nat
  day :: nat
  hour :: nat
  minute :: nat
  second :: nat

definition digit_char :: "nat \<Rightarrow> char" where
  "digit_char n = char_of (48 + n mod 10)"

definition two_digits :: "nat \<Rightarrow> string" where
  "two_digits n = [digit_char (n div 10), digit_char n]"

definition four_digits :: "nat \<Rightarrow> string" where
  "four_digits n = [digit_char (n div 1000), digit_char (n div 100), digit_char (n div 10), digit_char n]"

definition month_abbr :: "nat \<Rightarrow> string" where
  "month_abbr m =
     (if 1 \<le> m \<and> m \<le> 12 then
        [''Jan'', ''Feb'', ''Mar'', ''Apr'', ''May'', ''Jun'',
         ''Jul'', ''Aug'', ''Sep'', ''Oct'', ''Nov'', ''Dec''] ! (m - 1)
      else [])"

text \<open>
  \<^verbatim>\<open>strftime\<close> for the directives the source uses (\<^verbatim>\<open>%d %b %m %Y %H %M %S\<close>), for the
  dates the clock gives (a year of four digits).
\<close>

definition directive :: "char \<Rightarrow> datetime \<Rightarrow> string" where
  "directive d t =
     (if d = CHR ''d'' then two_digits (day t)
      else if d = CHR ''b'' then month_abbr (month t)
      else if d = CHR ''m'' then two_digits (month t)
      else if d = CHR ''Y'' then four_digits (year t)
      else if d = CHR ''H'' then two_digits (hour t)
      else if d = CHR ''M'' then two_digits (minute t)
      else if d = CHR ''S'' then two_digits (second t)
      else [CHR ''%'', d])"

fun strftime :: "string \<Rightarrow> datetime \<Rightarrow> string" where
  "strftime [] t = []"
| "strftime [c] t = [c]"
| "strftime (c # d # rest) t =
     (if c = CHR ''%'' then directive d t @ strftime rest t else c # strftime (d # rest) t)"

text \<open>\<^verbatim>\<open>s.replace(' ', '_')\<close>\<close>

definition replace_spaces :: "string \<Rightarrow> string" where
  "replace_spaces s = map (\<lambda>c. if c = CHR '' '' then CHR ''_'' else c) s"

section \<open>Collaborators and effects\<close>

text \<open>
  The detector, the recogniser, the image codec, the font loader, the text measurer, the
  file system and the clock are outside the repository. They are the fields of an
  environment; a call that raises returns \<open>Inl\<close> (or \<open>Some\<close>) of the exception.
  Every call that matters to the pipeline is logged as an event, in order.
\<close>

type_synonym exn = string

datatype font = TrueType string nat | DefaultFont

datatype draw_op =
    NewImage int int string
  | RoundedRectangle "int list" int "string option" "string option" int
  | Rectangle "int list" string int
  | Line "(int \<times> int) list" string int
  | DrawText "rat \<times> rat" string font string

datatype event =
    Detect image
  | ReadText region
  | ImWrite string nat
  | Save string "draw_op list"
  | StError string
  | StWarning string
  | StSuccess string
  | StInfo string
  | StImage string
  | StDownload string

record env =
  yolo :: "image \<Rightarrow> exn + box list"
  readtext :: "region \<Rightarrow> exn + ocr_item list"
  imdecode :: "nat list \<Rightarrow> image option"
  imwrite :: "string \<Rightarrow> nat \<Rightarrow> exn option"
  truetype :: "string \<Rightarrow> nat \<Rightarrow> font option"
  path_exists :: "string \<Rightarrow> bool"
  textbbox :: "string \<Rightarrow> font \<Rightarrow> int \<times> int \<times> int \<times> int"
  save :: "string \<Rightarrow> exn option"
  now :: datetime

text \<open>A computation that may raise, with the events it caused.\<close>

type_synonym 'a io = "(exn + 'a) \<times> event list"

definition ret :: "'a \<Rightarrow> 'a io" where
  "ret x = (Inr x, [])"

definition bind_io :: "'a io \<Rightarrow> ('a \<Rightarrow> 'b io) \<Rightarrow> 'b io" where
  "bind_io m f =
     (case m of
        (Inl e, ev) \<Rightarrow> (Inl e, ev)
      | (Inr x, ev) \<Rightarrow> (case f x of (r, ev') \<Rightarrow> (r, ev @ ev')))"

definition call :: "event \<Rightarrow> exn + 'a \<Rightarrow> 'a io" where
  "call e r = (r, [e])"

definition call_unit :: "event \<Rightarrow> exn option \<Rightarrow> unit io" where
  "call_unit e r = ((case r of None \<Rightarrow> Inr () | Some x \<Rightarrow> Inl x), [e])"

section \<open>Service variant\<close>

definition SLIPS_DIR :: string where
  "SLIPS_DIR = ''static/slips''"

definition FONT_BOLD :: string where
  "FONT_BOLD = ''fonts/Poppins/Poppins-Bold.ttf''"

definition FONT_REGULAR :: string where
  "FONT_REGULAR = ''fonts/Poppins/Poppins-Regular.ttf''"

text \<open>\<^verbatim>\<open>detect_plate\<close>: the first box of the detector, or \<open>None\<close>.\<close>

definition detect_plate :: "env \<Rightarrow> image \<Rightarrow> box option io" where
  "detect_plate E image_np =
     bind_io (call (Detect image_np) (yolo E image_np))
       (\<lambda>boxes. ret (case boxes of [] \<Rightarrow> None | b # _ \<Rightarrow> Some b))"

text \<open>\<^verbatim>\<open>extract_text\<close>: the crop with a padding of 4, then the recogniser and the filter.\<close>

definition extract_text :: "env \<Rightarrow> image \<Rightarrow> box \<Rightarrow> (string \<times> region) io" where
  "extract_text E image_np b =
     (let crop = crop_image 4 image_np b in
      if size_of crop = 0 then ret (''Crop Error'', crop)
      else bind_io (call (ReadText crop) (readtext E crop))
             (\<lambda>raw. ret (plate_text_of raw, crop)))"

text \<open>\<^verbatim>\<open>generate_slip\<close>: the four fonts, the drawing, the file.\<close>

definition slip_fonts :: "env \<Rightarrow> font \<times> font \<times> font \<times> font" where
  "slip_fonts E =
     (case (truetype E FONT_BOLD 30, truetype E FONT_REGULAR 16,
            truetype E FONT_BOLD 18, truetype E FONT_REGULAR 12) of
        (Some f_title, Some f_label, Some f_value, Some f_small) \<Rightarrow>
          (f_title, f_label, f_value, f_small)
      | _ \<Rightarrow> (DefaultFont, DefaultFont, DefaultFont, DefaultFont))"

definition text_width :: "env \<Rightarrow> string \<Rightarrow> font \<Rightarrow> int" where
  "text_width E s f = (case textbbox E s f of (l, t, r, b) \<Rightarrow> r - l)"

definition text_height :: "env \<Rightarrow> string \<Rightarrow> font \<Rightarrow> int" where
  "text_height E s f = (case textbbox E s f of (l, t, r, b) \<Rightarrow> b - t)"

definition slip_rows :: "string \<Rightarrow> datetime \<Rightarrow> (string \<times> string) list" where
  "slip_rows plate_text entry_time =
     [(''Vehicle Plate'', plate_text),
      (''Entry Time'', strftime ''%d %b %Y  %H:%M:%S'' entry_time),
      (''Parking Fee'', ''Rs. 30.00''),
      (''Status'', ''ACTIVE'')]"

fun draw_rows :: "font \<Rightarrow> font \<Rightarrow> (string \<times> string) list \<Rightarrow> int \<Rightarrow> draw_op list" where
  "draw_rows f_label f_value [] y = []"
| "draw_rows f_label f_value ((label, v) # rest) y =
     DrawText (50, of_int y) label f_label ''#A78BFA''
       # DrawText (270, of_int y) v f_value ''#FFFFFF''
       # draw_rows f_label f_value rest (y + 55)"

definition slip_footer :: string where
  "slip_footer =
     ''Powered by Smart Parking System  '' @ [CHR 0xE2, CHR 0x80, CHR 0xA2] @ ''  YOLO + EasyOCR''"

definition slip_canvas :: "env \<Rightarrow> string \<Rightarrow> datetime \<Rightarrow> draw_op list" where
  "slip_canvas E plate_text entry_time =
     (let W = 600; H = 380;
          (f_title, f_label, f_value, f_small) = slip_fonts E;
          title = ''PARKING RECEIPT''
      in [NewImage W H ''#0D0D1A'',
          RoundedRectangle [12, 12, W - 12, H - 12] 14 None (Some ''#4C1D95'') 2,
          RoundedRectangle [12, 12, W - 12, 60] 14 (Some ''#7C3AED'') None 1,
          DrawText (of_int (W - text_width E title f_title) / 2, 18) title f_title ''#FFFFFF'',
          Line [(40, 75), (W - 40, 75)] ''#4C1D95'' 1]
         @ draw_rows f_label f_value (slip_rows plate_text entry_time) 95
         @ [DrawText (of_int (W - text_width E slip_footer f_small) / 2, of_int (H - 30))
              slip_footer f_small ''#94A3B8''])"

definition slip_filename :: "string \<Rightarrow> datetime \<Rightarrow> string" where
  "slip_filename plate_text entry_time =
     ''slip_'' @ replace_spaces plate_text @ ''_'' @ strftime ''%Y%m%d_%H%M%S'' entry_time @ ''.png''"

definition generate_slip :: "env \<Rightarrow> string \<Rightarrow> datetime \<Rightarrow> string io" where
  "generate_slip E plate_text entry_time =
     (let filename = slip_filename plate_text entry_time;
          path = SLIPS_DIR @ ''/'' @ filename
      in bind_io (call_unit (Save path (slip_canvas E plate_text entry_time)) (save E path))
           (\<lambda>_. ret filename))"

text \<open>The request of \<^verbatim>\<open>/process\<close> and its JSON answer with its status.\<close>

record upload =
  filename :: string
  content :: "nat list"

record request =
  files :: "string \<rightharpoonup> upload"

record response =
  status :: nat
  body :: "(string \<times> string) list"

definition jsonify :: "(string \<times> string) list \<Rightarrow> nat \<Rightarrow> response io" where
  "jsonify kvs code = ret \<lparr>status = code, body = kvs\<rparr>"

definition process :: "env \<Rightarrow> request \<Rightarrow> response io" where
  "process E req =
     (case files req ''image'' of
        None \<Rightarrow> jsonify [(''error'', ''No image uploaded'')] 400
      | Some file \<Rightarrow>
          if filename file = [] then jsonify [(''error'', ''Empty filename'')] 400
          else
            (case imdecode E (content file) of
               None \<Rightarrow> jsonify [(''error'', ''Could not decode image'')] 400
             | Some img_bgr \<Rightarrow>
                 bind_io (detect_plate E img_bgr)
                   (\<lambda>found. case found of
                      None \<Rightarrow> jsonify [(''error'', ''No number plate detected in image'')] 200
                    | Some b \<Rightarrow>
                        bind_io (extract_text E img_bgr b)
                          (\<lambda>(plate_text, crop).
                        bind_io (call_unit
                                   (ImWrite (SLIPS_DIR @ ''/annotated_latest.jpg'')
                                      (shape0 img_bgr * shape1 img_bgr * 3))
                                   (imwrite E (SLIPS_DIR @ ''/annotated_latest.jpg'')
                                      (shape0 img_bgr * shape1 img_bgr * 3)))
                          (\<lambda>_.
                        bind_io (call_unit
                                   (ImWrite (SLIPS_DIR @ ''/crop_latest.jpg'') (size_of crop))
                                   (imwrite E (SLIPS_DIR @ ''/crop_latest.jpg'') (size_of crop)))
                          (\<lambda>_.
                        (let entry_time = now E in
                         bind_io (generate_slip E plate_text entry_time)
                           (\<lambda>slip_file.
                              jsonify
                                [(''plate'', plate_text),
                                 (''entry_time'', strftime ''%d %b %Y, %H:%M:%S'' entry_time),
                                 (''fee'', ''Rs. 30.00''),
                                 (''slip_url'', ''/static/slips/'' @ slip_file),
                                 (''anno_url'', ''/static/slips/annotated_latest.jpg''),
                                 (''crop_url'', ''/static/slips/crop_latest.jpg'')]
                                200))))))))"

section \<open>Interactive variant\<close>

text \<open>The pictographs of the messages and of the slip, as their UTF-8 bytes.\<close>

definition cross_mark :: string where
  "cross_mark = [CHR 0xE2, CHR 0x9D, CHR 0x8C]"

definition warning_sign :: string where
  "warning_sign = [CHR 0xE2, CHR 0x9A, CHR 0xA0, CHR 0xEF, CHR 0xB8, CHR 0x8F]"

definition info_sign :: string where
  "info_sign = [CHR 0xE2, CHR 0x84, CHR 0xB9, CHR 0xEF, CHR 0xB8, CHR 0x8F]"

definition check_mark :: string where
  "check_mark = [CHR 0xE2, CHR 0x9C, CHR 0x85]"

definition car_icon :: string where
  "car_icon = [CHR 0xF0, CHR 0x9F, CHR 0x9A, CHR 0x97]"

definition calendar_icon :: string where
  "calendar_icon = [CHR 0xF0, CHR 0x9F, CHR 0x93, CHR 0x85]"

definition money_icon :: string where
  "money_icon = [CHR 0xF0, CHR 0x9F, CHR 0x92, CHR 0xB0]"

definition FONT_REGULAR_PATH :: string where
  "FONT_REGULAR_PATH = ''fonts/Poppins-Regular.ttf''"

definition FONT_BOLD_PATH :: string where
  "FONT_BOLD_PATH = ''fonts/Poppins-Bold.ttf''"

definition SLIP_FILENAME :: string where
  "SLIP_FILENAME = ''generated_parking_slip.png''"

text \<open>
  \<^verbatim>\<open>detect_and_ocr\<close>: the box, the plate text, the crop and the recogniser's input.
  An exception of the detector or of the recogniser is caught: the text is then
  \<^verbatim>\<open>Processing Error\<close>, with the box and the crop found so far.
\<close>

type_synonym ocr_result = "box option \<times> string \<times> region option \<times> region option"

definition detect_and_ocr ::
  "image \<Rightarrow> (image \<Rightarrow> exn + box list) \<Rightarrow> (region \<Rightarrow> exn + ocr_item list) option
     \<Rightarrow> ocr_result \<times> event list" where
  "detect_and_ocr image_np yolo_model easyocr_reader =
     (case easyocr_reader of
        None \<Rightarrow> ((None, ''OCR Error (Reader not loaded)'', None, None), [])
      | Some reader \<Rightarrow>
          (case yolo_model image_np of
             Inl e \<Rightarrow>
               ((None, ''Processing Error'', None, None),
                [Detect image_np,
                 StError (warning_sign
                   @ '' An error occurred during detection or EasyOCR processing: '' @ e)])
           | Inr boxes \<Rightarrow>
               (case boxes of
                  [] \<Rightarrow> ((None, ''No plate detected'', None, None), [Detect image_np])
                | b # _ \<Rightarrow>
                    (let cropped_plate_img = crop_image 2 image_np b in
                     if size_of cropped_plate_img = 0 then
                       ((Some b, ''Crop Error'', Some cropped_plate_img, Some cropped_plate_img),
                        [Detect image_np])
                     else
                       (case reader cropped_plate_img of
                          Inl e \<Rightarrow>
                            ((Some b, ''Processing Error'',
                              Some cropped_plate_img, Some cropped_plate_img),
                             [Detect image_np, ReadText cropped_plate_img,
                              StError (warning_sign
                                @ '' An error occurred during detection or EasyOCR processing: ''
                                @ e)])
                        | Inr ocr_results \<Rightarrow>
                            ((Some b, ocr_plate_text ocr_results,
                              Some cropped_plate_img, Some cropped_plate_img),
                             [Detect image_np, ReadText cropped_plate_img]))))))"

text \<open>\<^verbatim>\<open>create_parking_slip\<close>\<close>

definition display_plate_text :: "string \<Rightarrow> string" where
  "display_plate_text plate_text =
     (if plate_text \<noteq> [] \<and> \<not> str_in ''failed'' (lower plate_text)
         \<and> \<not> str_in ''error'' (lower plate_text)
      then plate_text else ''N/A'')"

text \<open>
  The fonts \<^verbatim>\<open>(font_title, font_text, font_value_bold, font_small, font_icon)\<close> and
  \<^verbatim>\<open>fonts_ok\<close>: Poppins, else Arial, else the default font.
\<close>

definition receipt_fonts :: "env \<Rightarrow> (font \<times> font \<times> font \<times> font \<times> font) \<times> bool" where
  "receipt_fonts E =
     (let fallback =
            (case (truetype E ''arialbd.ttf'' 32, truetype E ''arial.ttf'' 17,
                   truetype E ''arialbd.ttf'' 19, truetype E ''arial.ttf'' 13,
                   truetype E ''arial.ttf'' 19) of
               (Some a, Some b, Some c, Some d, Some e) \<Rightarrow> ((a, b, c, d, e), False)
             | _ \<Rightarrow>
               ((DefaultFont, DefaultFont, DefaultFont, DefaultFont, DefaultFont), False))
      in if path_exists E FONT_REGULAR_PATH \<and> path_exists E FONT_BOLD_PATH then
           (case (truetype E FONT_BOLD_PATH 34, truetype E FONT_REGULAR_PATH 18,
                  truetype E FONT_BOLD_PATH 20, truetype E FONT_REGULAR_PATH 13,
                  truetype E FONT_REGULAR_PATH 20) of
              (Some a, Some b, Some c, Some d, Some e) \<Rightarrow> ((a, b, c, d, e), True)
            | _ \<Rightarrow> fallback)
         else fallback)"

definition content_items :: "string \<Rightarrow> datetime \<Rightarrow> font \<Rightarrow> font
     \<Rightarrow> (string \<times> string \<times> string \<times> font) list" where
  "content_items plate_text entry_time_obj font_text font_value_bold =
     [(car_icon, ''Vehicle Plate'', display_plate_text plate_text, font_value_bold),
      (calendar_icon, ''Entry Time'', strftime ''%d %b %Y, %H:%M:%S'' entry_time_obj, font_text),
      (money_icon, ''Parking Fee'', ''Rs. 30.00'', font_text)]"

fun draw_items :: "font \<Rightarrow> font \<Rightarrow> (string \<times> string \<times> string \<times> font) list \<Rightarrow> int
     \<Rightarrow> draw_op list \<times> int" where
  "draw_items font_icon font_text [] y_pos = ([], y_pos)"
| "draw_items font_icon font_text ((icon, label, v, value_font) # rest) y_pos =
     (case draw_items font_icon font_text rest (y_pos + 50) of (ops, y_end) \<Rightarrow>
        (DrawText (35, of_int (y_pos + 3)) icon font_icon ''#2C3E50''
           # DrawText (35 + 40, of_int y_pos) label font_text ''#7F8C8D''
           # DrawText (280, of_int y_pos) v value_font ''#2C3E50''
           # ops,
         y_end))"

definition receipt_canvas :: "env \<Rightarrow> string \<Rightarrow> datetime \<Rightarrow> draw_op list" where
  "receipt_canvas E plate_text entry_time_obj =
     (let slip_width = 600; slip_height = 400; border_margin = 20; content_padding_x = 35;
          ((font_title, font_text, font_value_bold, font_small, font_icon), fonts_ok) =
             receipt_fonts E;
          y_pos = border_margin + 25;
          header_text = ''PARKING RECEIPT'';
          header_width = text_width E header_text font_title;
          header = DrawText (of_int (slip_width - header_width) / 2, of_int y_pos)
                     header_text font_title ''#2C3E50'';
          y_pos = y_pos + text_height E header_text font_title + 15;
          divider = Line [(content_padding_x, y_pos), (slip_width - content_padding_x, y_pos)]
                      ''#BDC3C7'' 1;
          y_pos = y_pos + 25;
          (row_ops, y_pos) =
             draw_items font_icon font_text
               (content_items plate_text entry_time_obj font_text font_value_bold) y_pos;
          y_pos = y_pos + 5;
          qr_size = 80;
          qr_x = slip_width - border_margin - content_padding_x - qr_size;
          qr_y = y_pos;
          powered_by_text = ''Powered by Downlabs'';
          pb_width = text_width E powered_by_text font_small
      in [NewImage slip_width slip_height ''#F8F9FA'',
          RoundedRectangle
            [border_margin, border_margin, slip_width - border_margin, slip_height - border_margin]
            10 None (Some ''#BDC3C7'') 2,
          header, divider]
         @ row_ops
         @ [Rectangle [qr_x, qr_y, qr_x + qr_size, qr_y + qr_size] ''#BDC3C7'' 1,
            Line [(qr_x + 5, qr_y + 5), (qr_x + qr_size - 5, qr_y + qr_size - 5)] ''#BDC3C7'' 0,
            Line [(qr_x + qr_size - 5, qr_y + 5), (qr_x + 5, qr_y + qr_size - 5)] ''#BDC3C7'' 0,
            DrawText (of_int (qr_x + 18), of_int (qr_y + 30)) ''SCAN'' font_small ''#7F8C8D'',
            DrawText (of_int content_padding_x, of_int (qr_y + 15))
              ''Scan for details or payment.'' font_text ''#7F8C8D'',
            DrawText (of_int (slip_width - pb_width) / 2, of_int (slip_height - border_margin - 25))
              powered_by_text font_small ''#7F8C8D''])"

definition create_parking_slip :: "env \<Rightarrow> string \<Rightarrow> datetime \<Rightarrow> string
     \<Rightarrow> string option \<times> event list" where
  "create_parking_slip E plate_text entry_time_obj file_name =
     (let fonts_note =
            (if snd (receipt_fonts E) then []
             else [StInfo (info_sign @ '' Custom Poppins fonts not found or failed to load. ''
                     @ ''Using default fonts. Appearance may vary.'')]);
          canvas = receipt_canvas E plate_text entry_time_obj
      in case save E file_name of
           None \<Rightarrow> (Some file_name, fonts_note @ [Save file_name canvas])
         | Some e \<Rightarrow>
             (None,
              fonts_note
                @ [Save file_name canvas,
                   StError (cross_mark @ '' Failed to save the parking slip image: '' @ e)]))"

text \<open>The decision of the page on a plate text.\<close>

definition is_success :: "string \<Rightarrow> bool" where
  "is_success plate_text_result =
     (\<not> list_ex (\<lambda>err_msg. str_in err_msg (lower plate_text_result))
            [''error'', ''failed'', ''no plate'', ''n/a'', ''crop'']
      \<and> plate_text_result \<noteq> [])"

definition result_message :: "string \<Rightarrow> event" where
  "result_message plate_text_result =
     (if is_success plate_text_result then
        StSuccess (check_mark @ '' **`'' @ plate_text_result @ ''`**'')
      else if plate_text_result = ''OCR failed (EasyOCR found no text)'' then
        StError (cross_mark @ '' OCR Failed: EasyOCR did not find any recognizable text.'')
      else if plate_text_result = ''OCR failed (Low confidence or non-alphanumeric)'' then
        StWarning (warning_sign @ '' OCR Warning: Text found but had low confidence or ''
          @ ''contained only symbols after filtering.'')
      else if plate_text_result = ''No plate detected'' then
        StError (cross_mark @ '' Detection Failed: No number plate found by YOLO.'')
      else StWarning (warning_sign @ '' Status: `'' @ plate_text_result @ ''`''))"

text \<open>
  The right column of the page for an uploaded file, both models loaded. Layout calls
  (dividers, subheaders, the spinner) leave no event. A slip file that was saved exists.
\<close>

definition slip_section :: "env \<Rightarrow> string \<Rightarrow> datetime \<Rightarrow> event list" where
  "slip_section E plate_text_result current_time =
     (if is_success plate_text_result then
        (case create_parking_slip E plate_text_result current_time SLIP_FILENAME of
           (Some slip_filepath, ev) \<Rightarrow>
             ev @ [StImage ''Parking Slip Preview'',
                   StDownload (''Parking_Slip_'' @ replace_spaces plate_text_result @ ''_''
                     @ strftime ''%Y%m%d_%H%M'' current_time @ ''.png'')]
         | (None, ev) \<Rightarrow>
             ev @ [StError (cross_mark @ '' Failed to generate or save the parking slip.'')])
      else
        [StInfo (info_sign @ '' Parking slip cannot be generated due to issues in ''
           @ ''plate detection or text extraction.'')])"

definition show_results :: "env \<Rightarrow> nat list \<Rightarrow> event list" where
  "show_results E file_bytes =
     (case imdecode E file_bytes of
        None \<Rightarrow> [StError (cross_mark @ '' Failed to decode image. Please try another file.'')]
      | Some img_cv \<Rightarrow>
          (case detect_and_ocr img_cv (yolo E) (Some (readtext E)) of
             ((detection_box, plate_text_result, cropped_img, ocr_input_img), ev) \<Rightarrow>
               (let current_time = now E in
                case detection_box of
                  Some b \<Rightarrow>
                    ev @ [StImage ''Detected Number Plate Area'']
                      @ (if cropped_img \<noteq> None then [StImage ''Cropped Plate Sent to EasyOCR'']
                         else [])
                      @ [result_message plate_text_result]
                      @ slip_section E plate_text_result current_time
                | None \<Rightarrow>
                    ev @ [StError (cross_mark
                            @ '' **Detection Failed:** No number plate could be detected.'')])))"

section \<open>Reading a canvas and a log\<close>

text \<open>The texts a canvas carries, in drawing order, and the canvases a run saved.\<close>

fun texts_drawn :: "draw_op list \<Rightarrow> string list" where
  "texts_drawn [] = []"
| "texts_drawn (DrawText pos s f fill # ops) = s # texts_drawn ops"
| "texts_drawn (_ # ops) = texts_drawn ops"

fun saved_canvases :: "event list \<Rightarrow> draw_op list list" where
  "saved_canvases [] = []"
| "saved_canvases (Save path canvas # evs) = canvas # saved_canvases evs"
| "saved_canvases (_ # evs) = saved_canvases evs"

fun recogniser_calls :: "event list \<Rightarrow> region list" where
  "recogniser_calls [] = []"
| "recogniser_calls (ReadText crop # evs) = crop # recogniser_calls evs"
| "recogniser_calls (_ # evs) = recogniser_calls evs"

text \<open>
  A sample environment: a detector that gives \<open>boxes\<close> on every image, a recogniser that
  gives \<open>items\<close> on every crop, a codec that decodes every upload to 100 rows of 200
  columns, no font file, writes that succeed, and a fixed clock.
\<close>

definition sample_env :: "box list \<Rightarrow> ocr_item list \<Rightarrow> env" where
  "sample_env boxes items =
     \<lparr>yolo = (\<lambda>_. Inr boxes), readtext = (\<lambda>_. Inr items),
      imdecode = (\<lambda>_. Some \<lparr>shape0 = 100, shape1 = 200\<rparr>),
      imwrite = (\<lambda>_ _. None), truetype = (\<lambda>_ _. None), path_exists = (\<lambda>_. False),
      textbbox = (\<lambda>s f. (0, 0, 10 * int (length s), 20)), save = (\<lambda>_. None),
      now = \<lparr>year = 2026, month = 11, day = 3, hour = 19, minute = 17, second = 5\<rparr>\<rparr>"

definition sample_request :: request where
  "sample_request = \<lparr>files = [''image'' \<mapsto> \<lparr>filename = ''car.jpg'', content = []\<rparr>]\<rparr>"

section \<open>Facts about strings\<close>

lemma join_eq_Nil: "join sep xs = [] \<longleftrightarrow> (xs = [] \<or> (sep = [] \<and> (\<forall>x\<in>set xs. x = [])) \<or> xs = [[]])"
  by (induction sep xs rule: join.induct) auto

lemma join_nonempty: "xs \<noteq> [] \<Longrightarrow> \<forall>x\<in>set xs. x \<noteq> [] \<Longrightarrow> join sep xs \<noteq> []"
  by (induction sep xs rule: join.induct) auto

lemma set_join: "set (join sep xs) \<subseteq> set sep \<union> (\<Union>x\<in>set xs. set x)"
  by (induction sep xs rule: join.induct) auto

lemma isalnum_upper_char: "isalnum c \<Longrightarrow> isalnum (upper_char c)"
  by (auto simp: isalnum_def upper_char_def isdigit_def isupper_def islower_def Let_def
      of_char_of)

lemma set_clean: "c \<in> set (clean t) \<Longrightarrow> isalnum c"
  by (auto simp: clean_def upper_def isalnum_upper_char)

section \<open>Facts about the two filters\<close>

lemma texts_of_eq:
  "[t. t \<leftarrow> texts_of raw, t \<noteq> []] = surviving raw"
  by (induction raw)
    (auto simp: texts_of_def surviving_def kept_spans_def clean_def upper_def
      confidence_threshold_def)

lemma filter_loop_eq: "filter_loop raw acc = acc @ surviving raw"
  by (induction raw acc rule: filter_loop.induct)
    (auto simp: surviving_def kept_spans_def clean_def upper_def confidence_threshold_def
      Let_def)

lemma surviving_nonempty: "t \<in> set (surviving raw) \<Longrightarrow> t \<noteq> []"
  by (simp add: surviving_def)

lemma surviving_alnum: "t \<in> set (surviving raw) \<Longrightarrow> c \<in> set t \<Longrightarrow> isalnum c"
  by (auto simp: surviving_def isalnum_upper_char)

lemmas char_defs = isalnum_def isdigit_def isupper_def islower_def upper_char_def lower_char_def

lemma surviving_Nil: "surviving [] = []"
  by (simp add: surviving_def kept_spans_def)

lemma surviving_Cons:
  "surviving ((bb, text, conf) # rest) =
     (if conf \<ge> 2 / 10 \<and> clean text \<noteq> [] then clean text # surviving rest else surviving rest)"
  by (simp add: surviving_def kept_spans_def clean_def upper_def)

lemma surviving_append: "surviving (xs @ ys) = surviving xs @ surviving ys"
  by (simp add: surviving_def kept_spans_def)

lemma join_surviving_nonempty: "surviving spans \<noteq> [] \<Longrightarrow> join '' '' (surviving spans) \<noteq> []"
  by (rule join_nonempty) (auto dest: surviving_nonempty)

lemma plate_text_of_eq:
  "plate_text_of spans =
     (if surviving spans = [] then ''No text detected'' else join '' '' (surviving spans))"
  using join_surviving_nonempty [of spans]
  by (simp add: plate_text_of_def texts_of_eq str_or_def)

lemma ocr_plate_text_eq:
  "ocr_plate_text spans =
     (if spans = [] then ''OCR failed (EasyOCR found no text)''
      else if surviving spans = [] then ''OCR failed (Low confidence or non-alphanumeric)''
      else join '' '' (surviving spans))"
  by (simp add: ocr_plate_text_def filter_loop_eq)

lemma join_surviving_chars:
  assumes "c \<in> set (join '' '' (surviving spans))"
  shows "isalnum c \<or> c = CHR '' ''"
proof -
  from assms set_join [of "'' ''" "surviving spans"]
  have "c \<in> set '' '' \<or> (\<exists>t\<in>set (surviving spans). c \<in> set t)" by auto
  then show ?thesis using surviving_alnum by auto
qed

section \<open>Facts about the filters on Unicode text\<close>

lemmas ascii_defs = ascii_isalnum_def ascii_isdigit_def ascii_isupper_def ascii_islower_def
  ascii_upper_def

lemma utexts_of_Nil: "utexts_of U [] = []"
  by (simp add: utexts_of_def)

lemma utexts_of_Cons:
  "utexts_of U ((bb, t, conf) # rest) =
     (if conf \<ge> 2 / 10 then uclean U t # utexts_of U rest else utexts_of U rest)"
  by (simp add: utexts_of_def confidence_threshold_def)

lemma ukept_Nil: "ukept U [] = []"
  by (simp add: ukept_def utexts_of_Nil)

lemma ukept_Cons:
  "ukept U ((bb, t, conf) # rest) =
     (if conf \<ge> 2 / 10 \<and> uclean U t \<noteq> [] then uclean U t # ukept U rest else ukept U rest)"
  by (simp add: ukept_def utexts_of_Cons)

lemma ukept_nonempty: "t \<in> set (ukept U raw) \<Longrightarrow> t \<noteq> []"
  by (auto simp: ukept_def)

lemma ufilter_loop_eq: "ufilter_loop U raw acc = acc @ ukept U raw"
proof (induction U raw acc rule: ufilter_loop.induct)
  case (1 U acc)
  show ?case by (simp add: ukept_Nil)
next
  case (2 U bbox t prob rest acc)
  then show ?case
    by (simp add: ukept_Cons confidence_threshold_def Let_def)
qed

lemma codepoints_nonempty: "s \<noteq> [] \<Longrightarrow> codepoints s \<noteq> []"
  by (simp add: codepoints_def)

lemma join_ukept_nonempty: "ukept U raw \<noteq> [] \<Longrightarrow> join sep (ukept U raw) \<noteq> []"
  by (rule join_nonempty) (auto dest: ukept_nonempty)

lemma uplate_text_of_eq:
  "uplate_text_of U raw =
     (if ukept U raw = [] then codepoints ''No text detected''
      else join (codepoints '' '') (ukept U raw))"
proof -
  have "uplate_text_of U raw =
      str_or (join (codepoints '' '') (ukept U raw)) (codepoints ''No text detected'')"
    by (simp only: uplate_text_of_def)
  then show ?thesis
    using join_ukept_nonempty [of U raw "codepoints '' ''"] by (simp add: str_or_def)
qed

lemma uocr_plate_text_eq:
  "uocr_plate_text U raw =
     (if raw = [] then codepoints ''OCR failed (EasyOCR found no text)''
      else if ukept U raw = [] then codepoints ''OCR failed (Low confidence or non-alphanumeric)''
      else join (codepoints '' '') (ukept U raw))"
  by (simp add: uocr_plate_text_def ufilter_loop_eq)


lemma ascii_upper_alnum:
  assumes "agrees_on_ascii U" "c < 128" "db_isalnum U c"
  shows "db_upper U c = [ascii_upper c]" "ascii_upper c < 128" "db_isalnum U (ascii_upper c)"
    "ascii_isdigit (ascii_upper c) \<or> ascii_isupper (ascii_upper c)"
proof -
  from assms(1,2) have u: "db_upper U c = [ascii_upper c]" and a: "db_isalnum U c = ascii_isalnum c"
    by (simp_all add: agrees_on_ascii_def)
  show "db_upper U c = [ascii_upper c]" by (rule u)
  show lt: "ascii_upper c < 128" using assms(2) by (auto simp: ascii_defs)
  show caps: "ascii_isdigit (ascii_upper c) \<or> ascii_isupper (ascii_upper c)"
    using assms(3) a by (auto simp: ascii_defs)
  then have "ascii_isalnum (ascii_upper c)" by (auto simp: ascii_isalnum_def)
  with assms(1) lt show "db_isalnum U (ascii_upper c)"
    by (simp add: agrees_on_ascii_def)
qed

lemma uclean_ascii:
  assumes "agrees_on_ascii U" "ascii_text t" "d \<in> set (uclean U t)"
  shows "db_isalnum U d \<and> (ascii_isdigit d \<or> ascii_isupper d)"
proof -
  from assms(3) obtain c where c: "c \<in> set t" "db_isalnum U c" "d \<in> set (db_upper U c)"
    by (auto simp: uclean_def)
  from assms(2) c(1) have "c < 128" by (simp add: ascii_text_def)
  with assms(1) c(2,3) ascii_upper_alnum [of U c] show ?thesis by simp
qed

lemma ukept_ascii:
  assumes "agrees_on_ascii U" "\<forall>(bb, t, conf)\<in>set raw. ascii_text t"
    "t \<in> set (ukept U raw)" "d \<in> set t"
  shows "db_isalnum U d \<and> (ascii_isdigit d \<or> ascii_isupper d)"
proof -
  from assms(3) obtain bb t' conf where "(bb, t', conf) \<in> set raw" "t = uclean U t'"
    by (auto simp: ukept_def utexts_of_def)
  with assms(1,2,4) uclean_ascii [of U t' d] show ?thesis by auto
qed

lemma uclean_capitals:
  assumes "agrees_on_ascii U" "capitals_and_digits t"
  shows "uclean U t = t"
proof -
  have "\<forall>c\<in>set t. db_isalnum U c \<and> db_upper U c = [c]"
  proof
    fix c assume "c \<in> set t"
    with assms(2) have cd: "ascii_isdigit c \<or> ascii_isupper c"
      by (simp add: capitals_and_digits_def)
    then have "c < 128" "ascii_isalnum c" "ascii_upper c = c"
      by (auto simp: ascii_defs)
    with assms(1) show "db_isalnum U c \<and> db_upper U c = [c]"
      by (simp add: agrees_on_ascii_def)
  qed
  then show ?thesis
    unfolding uclean_def by (induction t) simp_all
qed

lemma ukept_capitals:
  assumes "agrees_on_ascii U"
    "\<forall>(bb, t, conf)\<in>set spans. conf \<ge> 2 / 10 \<and> capitals_and_digits t"
  shows "ukept U spans = map (\<lambda>(bb, t, conf). t) spans"
  using assms(2)
proof (induction spans)
  case Nil
  show ?case by (simp add: ukept_Nil)
next
  case (Cons item spans)
  obtain bb t conf where item: "item = (bb, t, conf)"
    by (cases item) auto
  from Cons.prems item have h: "conf \<ge> 2 / 10" "capitals_and_digits t"
    by simp_all
  from h(2) have "t \<noteq> []" by (simp add: capitals_and_digits_def)
  with h Cons show ?case
    by (simp add: item ukept_Cons uclean_capitals [OF assms(1)])
qed


lemma agrees_excerpt: "agrees_on_ascii unicode_excerpt"
  by (simp add: agrees_on_ascii_def unicode_excerpt_def)

lemma ukept_capitals_and_digits:
  assumes "agrees_on_ascii U" "\<forall>(bb, t, conf)\<in>set raw. ascii_text t" "t \<in> set (ukept U raw)"
  shows "capitals_and_digits t"
  using ukept_nonempty [OF assms(3)] ukept_ascii [OF assms]
  by (auto simp: capitals_and_digits_def)

lemma isalnum_ascii: "isalnum c = ascii_isalnum (of_char c)"
  by (simp add: char_defs ascii_defs Let_def)

lemma upper_char_ascii: "of_char (upper_char c) = ascii_upper (of_char c)"
proof -
  have "of_char c < (256 :: nat)" by simp
  then show ?thesis
    by (auto simp: char_defs ascii_defs Let_def of_char_of)
qed

lemma uclean_codepoints:
  assumes "agrees_on_ascii U" "ascii_text (codepoints t)"
  shows "uclean U (codepoints t) = codepoints (clean t)"
  using assms(2)
proof (induction t)
  case Nil
  show ?case by (simp add: uclean_def clean_def upper_def codepoints_def)
next
  case (Cons c t)
  from Cons.prems have c: "of_char c < (128 :: nat)" and t: "ascii_text (codepoints t)"
    by (simp_all add: ascii_text_def codepoints_def)
  from assms(1) c have "db_isalnum U (of_char c) = isalnum c"
    "db_upper U (of_char c) = [of_char (upper_char c)]"
    by (simp_all add: agrees_on_ascii_def isalnum_ascii upper_char_ascii)
  with Cons.IH [OF t] show ?case
    by (simp add: uclean_def clean_def upper_def codepoints_def)
qed

lemma codepoints_join:
  "codepoints (join sep xs) = join (codepoints sep) (map codepoints xs)"
  by (induction sep xs rule: join.induct) (simp_all add: codepoints_def)

lemma ukept_codepoints:
  assumes "agrees_on_ascii U" "\<forall>(bb, t, conf)\<in>set raw. ascii_text (codepoints t)"
  shows "ukept U (map (\<lambda>(bb, t, conf). (bb, codepoints t, conf)) raw)
     = map codepoints (surviving raw)"
  using assms(2)
proof (induction raw)
  case Nil
  show ?case by (simp add: ukept_Nil surviving_Nil)
next
  case (Cons item raw)
  obtain bb t conf where item: "item = (bb, t, conf)"
    by (cases item) auto
  from Cons.prems item have "ascii_text (codepoints t)" by simp
  then have "uclean U (codepoints t) = codepoints (clean t)"
    using assms(1) by (simp add: uclean_codepoints)
  with Cons show ?case
    by (simp add: item ukept_Cons surviving_Cons codepoints_def)
qed

lemma string_filters_are_ascii_restriction:
  assumes "agrees_on_ascii U" "\<forall>(bb, t, conf)\<in>set raw. ascii_text (codepoints t)"
  shows "uplate_text_of U (map (\<lambda>(bb, t, conf). (bb, codepoints t, conf)) raw)
       = codepoints (plate_text_of raw)"
    and "uocr_plate_text U (map (\<lambda>(bb, t, conf). (bb, codepoints t, conf)) raw)
       = codepoints (ocr_plate_text raw)"
  using ukept_codepoints [OF assms]
  by (simp_all add: uplate_text_of_eq uocr_plate_text_eq plate_text_of_eq ocr_plate_text_eq
      codepoints_join)

section \<open>The token filter meets its description\<close>

text \<open>
  C1. In both variants the token filter is a function of the span sequence alone: it keeps
  the spans with confidence at least 0.2, replaces each text by its alphanumeric characters
  in upper case, drops the texts that became empty, joins the rest with one space in input
  order, and gives the sentinel when none is left (the interactive variant has one sentinel
  for an empty sequence and one for a sequence filtered to nothing). The single span
  \<^verbatim>\<open>("ABC 123", 0.9)\<close> gives \<^verbatim>\<open>ABC123\<close>.
\<close>

theorem token_filter_spec:
  "plate_text_of spans = plate_reading_spec ''No text detected'' spans
   \<and> ocr_plate_text spans =
       plate_reading_spec
         (if spans = [] then ''OCR failed (EasyOCR found no text)''
          else ''OCR failed (Low confidence or non-alphanumeric)'') spans
   \<and> plate_text_of [(bb, ''ABC 123'', 9 / 10)] = ''ABC123''
   \<and> ocr_plate_text [(bb, ''ABC 123'', 9 / 10)] = ''ABC123''"
proof -
  have ex1: "plate_text_of [(bb, ''ABC 123'', 9 / 10)] = ''ABC123''"
    by (simp add: plate_text_of_eq surviving_Cons surviving_Nil clean_def upper_def char_defs)
  have ex2: "ocr_plate_text [(bb, ''ABC 123'', 9 / 10)] = ''ABC123''"
    by (simp add: ocr_plate_text_eq surviving_Cons surviving_Nil clean_def upper_def char_defs)
  have svc: "plate_text_of spans = plate_reading_spec ''No text detected'' spans"
    by (simp add: plate_text_of_eq plate_reading_spec_def)
  have ui: "ocr_plate_text spans =
       plate_reading_spec
         (if spans = [] then ''OCR failed (EasyOCR found no text)''
          else ''OCR failed (Low confidence or non-alphanumeric)'') spans"
    by (simp add: ocr_plate_text_eq plate_reading_spec_def surviving_Nil)
  show ?thesis
    using svc ui ex1 ex2 by blast
qed





section \<open>The confidence threshold\<close>

text \<open>
  C7. The threshold is a non-strict lower bound at 0.2: wherever a span stands in the
  sequence, it is kept when its confidence is at least 0.2 and dropped when it is below.
  A span at exactly 0.2 is kept; one at 0.19999 is dropped.
\<close>

theorem confidence_threshold_boundary:
  "texts_of (xs @ (bb, text, conf) # ys) =
     (if conf \<ge> 2 / 10 then texts_of xs @ clean text # texts_of ys
      else texts_of xs @ texts_of ys)
   \<and> filter_loop (xs @ (bb, text, conf) # ys) acc =
     (if conf \<ge> 2 / 10 \<and> clean text \<noteq> [] then filter_loop ys (filter_loop xs acc @ [clean text])
      else filter_loop ys (filter_loop xs acc))
   \<and> plate_text_of [(bb, text, conf)] =
     (if conf \<ge> 2 / 10 \<and> clean text \<noteq> [] then clean text else ''No text detected'')
   \<and> ocr_plate_text [(bb, text, conf)] =
     (if conf \<ge> 2 / 10 \<and> clean text \<noteq> [] then clean text
      else ''OCR failed (Low confidence or non-alphanumeric)'')
   \<and> plate_text_of [(bb, ''XY12'', 2 / 10)] = ''XY12''
   \<and> plate_text_of [(bb, ''XY12'', 19999 / 100000)] = ''No text detected''
   \<and> ocr_plate_text [(bb, ''XY12'', 2 / 10)] = ''XY12''
   \<and> ocr_plate_text [(bb, ''XY12'', 19999 / 100000)]
       = ''OCR failed (Low confidence or non-alphanumeric)''"
proof -
  have a: "texts_of (xs @ (bb, text, conf) # ys) =
     (if conf \<ge> 2 / 10 then texts_of xs @ clean text # texts_of ys
      else texts_of xs @ texts_of ys)"
    by (simp add: texts_of_def confidence_threshold_def)
  have b: "filter_loop (xs @ (bb, text, conf) # ys) acc =
     (if conf \<ge> 2 / 10 \<and> clean text \<noteq> [] then filter_loop ys (filter_loop xs acc @ [clean text])
      else filter_loop ys (filter_loop xs acc))"
    by (simp add: filter_loop_eq surviving_append surviving_Cons)
  have c: "plate_text_of [(bb, text, conf)] =
     (if conf \<ge> 2 / 10 \<and> clean text \<noteq> [] then clean text else ''No text detected'')"
    by (simp add: plate_text_of_eq surviving_Cons surviving_Nil)
  have d: "ocr_plate_text [(bb, text, conf)] =
     (if conf \<ge> 2 / 10 \<and> clean text \<noteq> [] then clean text
      else ''OCR failed (Low confidence or non-alphanumeric)'')"
    by (simp add: ocr_plate_text_eq surviving_Cons surviving_Nil)
  have e: "clean ''XY12'' = ''XY12''"
    by (simp add: clean_def upper_def char_defs)
  have f: "plate_text_of [(bb, ''XY12'', 2 / 10)] = ''XY12''"
    "plate_text_of [(bb, ''XY12'', 19999 / 100000)] = ''No text detected''"
    by (simp_all add: plate_text_of_eq surviving_Cons surviving_Nil e)
  have g: "ocr_plate_text [(bb, ''XY12'', 2 / 10)] = ''XY12''"
    "ocr_plate_text [(bb, ''XY12'', 19999 / 100000)]
       = ''OCR failed (Low confidence or non-alphanumeric)''"
    by (simp_all add: ocr_plate_text_eq surviving_Cons surviving_Nil e)
  show ?thesis using a b c d f g by blast
qed

section \<open>The crop stays inside the image\<close>

lemma slice_bound_le: "slice_bound n i \<le> n"
  by (auto simp: slice_bound_def max_def nat_le_iff)

lemma set_py_slice: "r \<in> set (py_slice n start stop) \<Longrightarrow> r < n"
  using slice_bound_le [of n stop] by (simp add: py_slice_def)

lemma py_slice_clamped:
  "0 \<le> start \<Longrightarrow> 0 \<le> stop \<Longrightarrow> stop \<le> int n \<Longrightarrow> py_slice n start stop = [nat start ..< nat stop]"
proof -
  assume h: "0 \<le> start" "0 \<le> stop" "stop \<le> int n"
  then have "nat stop \<le> n" by linarith
  with h have stop: "slice_bound n stop = nat stop"
    by (simp add: slice_bound_def)
  show ?thesis
  proof (cases "nat start \<le> n")
    case True
    with h stop show ?thesis by (simp add: py_slice_def slice_bound_def min_def)
  next
    case False
    with h have "nat stop \<le> nat start" by linarith
    moreover from h have "nat stop \<le> n" by linarith
    ultimately show ?thesis using h stop False by (simp add: py_slice_def slice_bound_def min_def)
  qed
qed

text \<open>
  C5. For every image, every box and every padding, the padded rectangle is clamped to the
  image: its left and top edges are at least 0, its right and bottom edges at most the
  width and the height, so every pixel of the rectangle lies in
  \<open>[0, width) \<times> [0, height)\<close>; and every row and column the crop reads is a row and a
  column of the image. Where the right and bottom edges are not negative, the crop reads
  exactly the rows and columns of the rectangle.
\<close>

theorem crop_within_image:
  assumes "padded_rect padding image_np b = (x1_pad, y1_pad, x2_pad, y2_pad)"
  shows "0 \<le> x1_pad \<and> 0 \<le> y1_pad
    \<and> x2_pad \<le> int (shape1 image_np) \<and> y2_pad \<le> int (shape0 image_np)
    \<and> (\<forall>x y. x1_pad \<le> x \<and> x < x2_pad \<and> y1_pad \<le> y \<and> y < y2_pad \<longrightarrow>
          0 \<le> x \<and> x < int (shape1 image_np) \<and> 0 \<le> y \<and> y < int (shape0 image_np))
    \<and> (\<forall>r\<in>set (rows (crop_image padding image_np b)). r < shape0 image_np)
    \<and> (\<forall>c\<in>set (cols (crop_image padding image_np b)). c < shape1 image_np)
    \<and> (0 \<le> y2_pad \<longrightarrow> rows (crop_image padding image_np b) = [nat y1_pad ..< nat y2_pad])
    \<and> (0 \<le> x2_pad \<longrightarrow> cols (crop_image padding image_np b) = [nat x1_pad ..< nat x2_pad])"
proof -
  obtain x1 y1 x2 y2 where b: "b = (x1, y1, x2, y2)"
    by (cases b) auto
  from assms b have
    x1: "x1_pad = max 0 (x1 - padding)" and y1: "y1_pad = max 0 (y1 - padding)" and
    x2: "x2_pad = min (int (shape1 image_np)) (x2 + padding)" and
    y2: "y2_pad = min (int (shape0 image_np)) (y2 + padding)"
    by (simp_all add: padded_rect_def)
  have bounds: "0 \<le> x1_pad" "0 \<le> y1_pad"
    "x2_pad \<le> int (shape1 image_np)" "y2_pad \<le> int (shape0 image_np)"
    by (simp_all add: x1 y1 x2 y2)
  have crop: "crop_image padding image_np b =
      \<lparr>rows = py_slice (shape0 image_np) y1_pad y2_pad,
       cols = py_slice (shape1 image_np) x1_pad x2_pad\<rparr>"
    using assms by (simp add: crop_image_def)
  have inside: "\<forall>x y. x1_pad \<le> x \<and> x < x2_pad \<and> y1_pad \<le> y \<and> y < y2_pad \<longrightarrow>
          0 \<le> x \<and> x < int (shape1 image_np) \<and> 0 \<le> y \<and> y < int (shape0 image_np)"
    using bounds by auto
  have read: "\<forall>r\<in>set (rows (crop_image padding image_np b)). r < shape0 image_np"
    "\<forall>c\<in>set (cols (crop_image padding image_np b)). c < shape1 image_np"
    by (auto simp: crop dest: set_py_slice)
  have exact: "0 \<le> y2_pad \<longrightarrow> rows (crop_image padding image_np b) = [nat y1_pad ..< nat y2_pad]"
    "0 \<le> x2_pad \<longrightarrow> cols (crop_image padding image_np b) = [nat x1_pad ..< nat x2_pad]"
    using bounds by (simp_all add: crop py_slice_clamped)
  show ?thesis using bounds inside read exact by blast
qed

theorem crop_within_image_witness:
  "padded_rect 4 \<lparr>shape0 = 100, shape1 = 200\<rparr> (0, 0, 200, 100) = (0, 0, 200, 100)
   \<and> rows (crop_image 4 \<lparr>shape0 = 100, shape1 = 200\<rparr> (0, 0, 200, 100)) = [0 ..< 100]
   \<and> cols (crop_image 4 \<lparr>shape0 = 100, shape1 = 200\<rparr> (0, 0, 200, 100)) = [0 ..< 200]"
proof -
  have h: "padded_rect 4 \<lparr>shape0 = 100, shape1 = 200\<rparr> (0, 0, 200, 100) = (0, 0, 200, 100)"
    by (simp add: padded_rect_def)
  show ?thesis
    using h crop_within_image [OF h] by simp
qed

section \<open>Feeding a reading back\<close>

text \<open>
  C6, as the code has it. Let the Unicode database agree with Python's on ASCII. Spans whose
  texts are non-empty strings of ASCII digits and capital letters, each with a confidence
  of at least 0.2, give their texts joined by single spaces; so one such token fed to the
  filter as one span is unchanged. On ASCII texts every token the filter keeps is of that
  form, and feeding the kept tokens back, one span per token with any confidence of at
  least 0.2, gives the same reading again.
\<close>

theorem token_filter_idempotent_per_token:
  assumes "agrees_on_ascii U"
  shows "(spans \<noteq> [] \<and> (\<forall>(bb, t, conf)\<in>set spans. conf \<ge> 2 / 10 \<and> capitals_and_digits t) \<longrightarrow>
        uplate_text_of U spans = join (codepoints '' '') (map (\<lambda>(bb, t, conf). t) spans)
        \<and> uocr_plate_text U spans = join (codepoints '' '') (map (\<lambda>(bb, t, conf). t) spans))
    \<and> (conf \<ge> 2 / 10 \<and> capitals_and_digits t \<longrightarrow>
        uplate_text_of U [(bb, t, conf)] = t \<and> uocr_plate_text U [(bb, t, conf)] = t)
    \<and> ((\<forall>(bb, t, conf)\<in>set raw. ascii_text t) \<longrightarrow>
        (\<forall>t\<in>set (ukept U raw). capitals_and_digits t))
    \<and> ((\<forall>(bb, t, conf)\<in>set raw. ascii_text t) \<and> ukept U raw \<noteq> []
        \<and> map (\<lambda>(bb, t, conf). t) spans = ukept U raw
        \<and> (\<forall>(bb, t, conf)\<in>set spans. conf \<ge> 2 / 10) \<longrightarrow>
        uplate_text_of U spans = uplate_text_of U raw
        \<and> uocr_plate_text U spans = uocr_plate_text U raw)"
proof -
  have fixed: "uplate_text_of U xs = join (codepoints '' '') (map (\<lambda>(bb, t, conf). t) xs)
        \<and> uocr_plate_text U xs = join (codepoints '' '') (map (\<lambda>(bb, t, conf). t) xs)"
    if "xs \<noteq> []" "\<forall>(bb, t, conf)\<in>set xs. conf \<ge> 2 / 10 \<and> capitals_and_digits t"
    for xs :: "uitem list"
  proof -
    have "ukept U xs = map (\<lambda>(bb, t, conf). t) xs"
      using assms that(2) by (rule ukept_capitals)
    with that(1) show ?thesis
      by (simp add: uplate_text_of_eq uocr_plate_text_eq)
  qed
  have one: "uplate_text_of U [(bb, t, conf)] = t \<and> uocr_plate_text U [(bb, t, conf)] = t"
    if "conf \<ge> 2 / 10" "capitals_and_digits t"
    using fixed [of "[(bb, t, conf)]"] that by simp
  have kept: "\<forall>t\<in>set (ukept U raw). capitals_and_digits t"
    if "\<forall>(bb, t, conf)\<in>set raw. ascii_text t"
    using ukept_capitals_and_digits [OF assms that] by blast
  have again: "uplate_text_of U spans = uplate_text_of U raw
        \<and> uocr_plate_text U spans = uocr_plate_text U raw"
    if h: "\<forall>(bb, t, conf)\<in>set raw. ascii_text t" "ukept U raw \<noteq> []"
      "map (\<lambda>(bb, t, conf). t) spans = ukept U raw"
      "\<forall>(bb, t, conf)\<in>set spans. conf \<ge> 2 / 10"
  proof -
    from h(2,3) have ne: "spans \<noteq> []" "raw \<noteq> []"
      by (auto simp: ukept_Nil)
    have "\<forall>(bb, t, conf)\<in>set spans. conf \<ge> 2 / 10 \<and> capitals_and_digits t"
    proof -
      have "capitals_and_digits t" if "(bb, t, conf) \<in> set spans" for bb t conf
      proof -
        from that have "t \<in> set (map (\<lambda>(bb, t, conf). t) spans)" by force
        with h(3) kept [OF h(1)] show ?thesis by simp
      qed
      with h(4) show ?thesis by auto
    qed
    from fixed [OF ne(1) this] h(2,3) ne(2) show ?thesis
      by (simp add: uplate_text_of_eq uocr_plate_text_eq)
  qed
  show ?thesis
    using fixed [of spans] one kept again by blast
qed

theorem token_filter_idempotent_per_token_witness:
  "agrees_on_ascii unicode_excerpt
   \<and> ukept unicode_excerpt
        [([], codepoints ''ab'', 9 / 10), ([], codepoints ''1-2'', 3 / 10)]
       = [codepoints ''AB'', codepoints ''12'']
   \<and> uplate_text_of unicode_excerpt
        [([], codepoints ''ab'', 9 / 10), ([], codepoints ''1-2'', 3 / 10)]
       = codepoints ''AB 12''
   \<and> uplate_text_of unicode_excerpt
        [([], codepoints ''AB'', 9 / 10), ([(1, 2)], codepoints ''12'', 1 / 2)]
       = codepoints ''AB 12''
   \<and> uocr_plate_text unicode_excerpt
        [([], codepoints ''AB'', 9 / 10), ([(1, 2)], codepoints ''12'', 1 / 2)]
       = codepoints ''AB 12''
   \<and> uplate_text_of unicode_excerpt [([(1, 2)], codepoints ''12'', 1 / 2)] = codepoints ''12''"
proof -
  let ?raw = "[([], codepoints ''ab'', 9 / 10), ([], codepoints ''1-2'', 3 / 10 :: rat)] :: uitem list"
  let ?spans = "[([], codepoints ''AB'', 9 / 10), ([(1, 2)], codepoints ''12'', 1 / 2 :: rat)]
    :: uitem list"
  have k: "ukept unicode_excerpt ?raw = [codepoints ''AB'', codepoints ''12'']"
    by code_simp
  have r: "uplate_text_of unicode_excerpt ?raw = codepoints ''AB 12''"
    by code_simp
  have j: "join (codepoints '' '') (map (\<lambda>(bb, t, conf). t) ?spans) = codepoints ''AB 12''"
    by code_simp
  have caps: "\<forall>(bb, t, conf)\<in>set ?spans. conf \<ge> 2 / 10 \<and> capitals_and_digits t"
    by (simp add: capitals_and_digits_def codepoints_def ascii_defs)
  have caps12: "(1 / 2 :: rat) \<ge> 2 / 10 \<and> capitals_and_digits (codepoints ''12'')"
    by (simp add: capitals_and_digits_def codepoints_def ascii_defs)
  have asc: "\<forall>(bb, t, conf)\<in>set ?raw. ascii_text t"
    by (simp add: ascii_text_def codepoints_def)
  have m: "map (\<lambda>(bb, t, conf). t) ?spans = ukept unicode_excerpt ?raw"
    unfolding k by simp
  have c: "\<forall>(bb, t, conf)\<in>set ?spans. conf \<ge> 2 / 10"
    by simp
  note inst = token_filter_idempotent_per_token
    [OF agrees_excerpt, of ?spans "1 / 2" "codepoints ''12''" "[(1, 2)]" ?raw]
  from inst caps have a: "uplate_text_of unicode_excerpt ?spans = codepoints ''AB 12''"
    "uocr_plate_text unicode_excerpt ?spans = codepoints ''AB 12''"
    unfolding j by simp_all
  from inst caps12 have b: "uplate_text_of unicode_excerpt [([(1, 2)], codepoints ''12'', 1 / 2)]
      = codepoints ''12''"
    by blast
  from inst asc m c k have d: "uplate_text_of unicode_excerpt ?spans
      = uplate_text_of unicode_excerpt ?raw"
    by simp
  show ?thesis
    using agrees_excerpt k r a b by simp
qed

text \<open>
  C6, as the claim states it, fails for a reading of two tokens: fed back as one span,
  \<^verbatim>\<open>AB 12\<close> loses its space.
\<close>

theorem token_filter_not_idempotent:
  "plate_text_of [([], ''AB'', 9 / 10), ([], ''12'', 9 / 10)] = ''AB 12''
   \<and> plate_text_of [([], ''AB 12'', 9 / 10)] = ''AB12''
   \<and> ocr_plate_text [([], ''AB'', 9 / 10), ([], ''12'', 9 / 10)] = ''AB 12''
   \<and> ocr_plate_text [([], ''AB 12'', 9 / 10)] = ''AB12''
   \<and> ''AB12'' \<noteq> ''AB 12''
   \<and> uplate_text_of unicode_excerpt
        [([], codepoints ''AB'', 9 / 10), ([], codepoints ''12'', 9 / 10)] = codepoints ''AB 12''
   \<and> uplate_text_of unicode_excerpt [([], codepoints ''AB 12'', 9 / 10)] = codepoints ''AB12''
   \<and> uocr_plate_text unicode_excerpt
        [([], codepoints ''AB'', 9 / 10), ([], codepoints ''12'', 9 / 10)] = codepoints ''AB 12''
   \<and> uocr_plate_text unicode_excerpt [([], codepoints ''AB 12'', 9 / 10)] = codepoints ''AB12''
   \<and> codepoints ''AB12'' \<noteq> codepoints ''AB 12''"
proof -
  have bytes: "plate_text_of [([], ''AB'', 9 / 10), ([], ''12'', 9 / 10)] = ''AB 12''
   \<and> plate_text_of [([], ''AB 12'', 9 / 10)] = ''AB12''
   \<and> ocr_plate_text [([], ''AB'', 9 / 10), ([], ''12'', 9 / 10)] = ''AB 12''
   \<and> ocr_plate_text [([], ''AB 12'', 9 / 10)] = ''AB12''
   \<and> ''AB12'' \<noteq> ''AB 12''"
    by (simp add: plate_text_of_eq ocr_plate_text_eq surviving_Cons surviving_Nil clean_def
        upper_def char_defs)
  have points: "uplate_text_of unicode_excerpt
        [([], codepoints ''AB'', 9 / 10), ([], codepoints ''12'', 9 / 10)] = codepoints ''AB 12''"
    "uplate_text_of unicode_excerpt [([], codepoints ''AB 12'', 9 / 10)] = codepoints ''AB12''"
    "uocr_plate_text unicode_excerpt
        [([], codepoints ''AB'', 9 / 10), ([], codepoints ''12'', 9 / 10)] = codepoints ''AB 12''"
    "uocr_plate_text unicode_excerpt [([], codepoints ''AB 12'', 9 / 10)] = codepoints ''AB12''"
    "codepoints ''AB12'' \<noteq> codepoints ''AB 12''"
    by code_simp+
  from bytes points show ?thesis
    by blast
qed

section \<open>No detection\<close>

lemma bind_io_Inr: "bind_io (Inr x, ev) f = (case f x of (r, ev') \<Rightarrow> (r, ev @ ev'))"
  by (simp add: bind_io_def)

lemma bind_io_Inl: "bind_io (Inl e, ev) f = (Inl e, ev)"
  by (simp add: bind_io_def)

lemma saved_canvases_append: "saved_canvases (xs @ ys) = saved_canvases xs @ saved_canvases ys"
  by (induction xs rule: saved_canvases.induct) simp_all

lemma recogniser_calls_append:
  "recogniser_calls (xs @ ys) = recogniser_calls xs @ recogniser_calls ys"
  by (induction xs rule: recogniser_calls.induct) simp_all

text \<open>
  C2. When the detector gives no box for an uploaded, decodable image, the service answers
  with status 200 and the body \<^verbatim>\<open>{"error": "No number plate detected in image"}\<close>, the
  interactive variant returns \<^verbatim>\<open>No plate detected\<close> and reports the failed detection,
  and in both the only collaborator called is the detector: the recogniser is never called.
\<close>

theorem no_detection_short_circuit:
  assumes "files req ''image'' = Some file" "filename file \<noteq> []"
    "imdecode E (content file) = Some img" "yolo E img = Inr []"
  shows "process E req =
      (Inr \<lparr>status = 200, body = [(''error'', ''No number plate detected in image'')]\<rparr>,
       [Detect img])
    \<and> recogniser_calls (snd (process E req)) = []
    \<and> detect_and_ocr img (yolo E) (Some (readtext E)) =
        ((None, ''No plate detected'', None, None), [Detect img])
    \<and> show_results E (content file) =
        [Detect img,
         StError (cross_mark @ '' **Detection Failed:** No number plate could be detected.'')]
    \<and> recogniser_calls (show_results E (content file)) = []"
proof -
  have d: "detect_plate E img = (Inr None, [Detect img])"
    using assms(4) by (simp add: detect_plate_def call_def bind_io_Inr ret_def)
  have p: "process E req =
      (Inr \<lparr>status = 200, body = [(''error'', ''No number plate detected in image'')]\<rparr>,
       [Detect img])"
    using assms(1-3) by (simp add: process_def d bind_io_Inr jsonify_def ret_def)
  have u: "detect_and_ocr img (yolo E) (Some (readtext E)) =
        ((None, ''No plate detected'', None, None), [Detect img])"
    using assms(4) by (simp add: detect_and_ocr_def)
  have s: "show_results E (content file) =
        [Detect img,
         StError (cross_mark @ '' **Detection Failed:** No number plate could be detected.'')]"
    using assms(3) by (simp add: show_results_def u)
  show ?thesis
    by (simp add: p u s)
qed

theorem no_detection_short_circuit_witness:
  "process (sample_env [] [([], ''ABC'', 9 / 10)]) sample_request =
      (Inr \<lparr>status = 200, body = [(''error'', ''No number plate detected in image'')]\<rparr>,
       [Detect \<lparr>shape0 = 100, shape1 = 200\<rparr>])
   \<and> show_results (sample_env [] [([], ''ABC'', 9 / 10)]) [] =
        [Detect \<lparr>shape0 = 100, shape1 = 200\<rparr>,
         StError (cross_mark @ '' **Detection Failed:** No number plate could be detected.'')]"
  using no_detection_short_circuit [of sample_request "\<lparr>filename = ''car.jpg'', content = []\<rparr>"
      "sample_env [] [([], ''ABC'', 9 / 10)]" "\<lparr>shape0 = 100, shape1 = 200\<rparr>"]
  by (simp add: sample_env_def sample_request_def)

section \<open>Empty and filtered recognition\<close>

lemma surviving_empty_iff:
  "surviving spans = [] \<longleftrightarrow> (\<forall>(bb, text, conf)\<in>set spans. conf < 2 / 10 \<or> clean text = [])"
proof (induction spans)
  case Nil
  show ?case by (simp add: surviving_Nil)
next
  case (Cons item spans)
  obtain bb t conf where item: "item = (bb, t, conf)"
    by (cases item) auto
  show ?case
    using Cons.IH by (cases "conf \<ge> 2 / 10 \<and> clean t \<noteq> []") (auto simp: item surviving_Cons)
qed

lemma message_empty:
  "result_message ''OCR failed (EasyOCR found no text)'' =
     StError (cross_mark @ '' OCR Failed: EasyOCR did not find any recognizable text.'')"
  by code_simp

lemma message_filtered:
  "result_message ''OCR failed (Low confidence or non-alphanumeric)'' =
     StWarning (warning_sign @ '' OCR Warning: Text found but had low confidence or ''
          @ ''contained only symbols after filtering.'')"
  by code_simp

text \<open>
  C9, as the code has it. In the interactive variant the two outcomes are distinct: no span
  at all gives \<^verbatim>\<open>OCR failed (EasyOCR found no text)\<close>, shown as an error; spans that all
  fall below the threshold or clean to nothing give
  \<^verbatim>\<open>OCR failed (Low confidence or non-alphanumeric)\<close>, shown as a warning. The service
  variant gives \<^verbatim>\<open>No text detected\<close> for both.
\<close>

theorem recognition_empty_vs_filtered:
  assumes "spans \<noteq> []" "\<forall>(bb, text, conf)\<in>set spans. conf < 2 / 10 \<or> clean text = []"
  shows "ocr_plate_text [] = ''OCR failed (EasyOCR found no text)''
    \<and> ocr_plate_text spans = ''OCR failed (Low confidence or non-alphanumeric)''
    \<and> ocr_plate_text [] \<noteq> ocr_plate_text spans
    \<and> result_message (ocr_plate_text []) =
        StError (cross_mark @ '' OCR Failed: EasyOCR did not find any recognizable text.'')
    \<and> result_message (ocr_plate_text spans) =
        StWarning (warning_sign @ '' OCR Warning: Text found but had low confidence or ''
          @ ''contained only symbols after filtering.'')
    \<and> plate_text_of [] = ''No text detected''
    \<and> plate_text_of spans = ''No text detected''"
proof -
  from assms(2) have s: "surviving spans = []"
    by (simp add: surviving_empty_iff)
  have a: "ocr_plate_text [] = ''OCR failed (EasyOCR found no text)''"
    by (simp add: ocr_plate_text_eq)
  have b: "ocr_plate_text spans = ''OCR failed (Low confidence or non-alphanumeric)''"
    using assms(1) s by (simp add: ocr_plate_text_eq)
  have c: "plate_text_of [] = ''No text detected''" "plate_text_of spans = ''No text detected''"
    using s by (simp_all add: plate_text_of_eq surviving_Nil)
  show ?thesis
    by (simp add: a b c message_empty message_filtered)
qed

theorem recognition_empty_vs_filtered_witness:
  "ocr_plate_text [([], ''AB'', 1 / 10), ([], ''--'', 9 / 10)]
     = ''OCR failed (Low confidence or non-alphanumeric)''
   \<and> ocr_plate_text [] = ''OCR failed (EasyOCR found no text)''"
proof -
  have h: "\<forall>(bb, text, conf)\<in>set [([], ''AB'', 1 / 10), ([], ''--'', 9 / 10 :: rat)].
      conf < 2 / 10 \<or> clean text = []"
    by (simp add: clean_def upper_def char_defs)
  show ?thesis
    using recognition_empty_vs_filtered [OF _ h] by simp
qed

text \<open>
  C9, as the claim states it, fails in the service variant: the empty recognition and a
  recognition filtered to nothing give the same reading.
\<close>

theorem service_collapses_diagnostics:
  "plate_text_of [] = plate_text_of [([], ''AB'', 1 / 10), ([], ''--'', 9 / 10)]"
  by (simp add: plate_text_of_eq surviving_Cons surviving_Nil clean_def upper_def char_defs)

section \<open>Success by substring\<close>

lemma startswith_set: "startswith s p \<Longrightarrow> set p \<subseteq> set s"
  by (induction s p rule: startswith.induct) auto

lemma str_in_set: "str_in sub s \<Longrightarrow> set sub \<subseteq> set s"
proof (induction sub s rule: str_in.induct)
  case (1 sub)
  then show ?case by simp
next
  case (2 sub c cs)
  from "2.prems" have "startswith (c # cs) sub \<or> str_in sub cs" by simp
  then show ?case
  proof
    assume "startswith (c # cs) sub"
    then show ?thesis by (rule startswith_set)
  next
    assume "str_in sub cs"
    then have "set sub \<subseteq> set cs" by (rule "2.IH")
    then show ?thesis by auto
  qed
qed

lemma lower_char_alnum: "isalnum c \<Longrightarrow> isalnum (lower_char c)"
  by (auto simp: char_defs Let_def of_char_of)

lemma lower_reading_chars:
  assumes "c \<in> set (lower (join '' '' (surviving spans)))"
  shows "isalnum c \<or> c = CHR '' ''"
proof -
  from assms obtain d where d: "d \<in> set (join '' '' (surviving spans))" "c = lower_char d"
    by (auto simp: lower_def)
  from d(1) have "isalnum d \<or> d = CHR '' ''"
    by (rule join_surviving_chars)
  then show ?thesis
  proof
    assume "isalnum d"
    then show ?thesis using d(2) by (simp add: lower_char_alnum)
  next
    assume "d = CHR '' ''"
    then show ?thesis using d(2) by (simp add: lower_char_def isupper_def)
  qed
qed

lemma reading_never_na:
  assumes "surviving spans \<noteq> []"
  shows "\<not> str_in ''n/a'' (lower (ocr_plate_text spans))"
proof
  assume "str_in ''n/a'' (lower (ocr_plate_text spans))"
  then have "CHR ''/'' \<in> set (lower (ocr_plate_text spans))"
    by (auto dest: str_in_set)
  moreover from assms have "ocr_plate_text spans = join '' '' (surviving spans)"
    by (auto simp: ocr_plate_text_eq surviving_Nil)
  ultimately have "CHR ''/'' \<in> set (lower (join '' '' (surviving spans)))"
    by simp
  then have "isalnum CHR ''/'' \<or> CHR ''/'' = CHR '' ''"
    by (rule lower_reading_chars)
  then show False
    by (simp add: char_defs)
qed

lemma is_success_iff:
  "is_success s \<longleftrightarrow>
     (s \<noteq> [] \<and> \<not> str_in ''error'' (lower s) \<and> \<not> str_in ''failed'' (lower s)
      \<and> \<not> str_in ''no plate'' (lower s) \<and> \<not> str_in ''n/a'' (lower s)
      \<and> \<not> str_in ''crop'' (lower s))"
  by (auto simp: is_success_def)

lemma saved_create_parking_slip:
  "saved_canvases (snd (create_parking_slip E s t f)) = [receipt_canvas E s t]"
  by (simp add: create_parking_slip_def Let_def saved_canvases_append split: option.splits)

lemma saved_slip_section:
  "saved_canvases (slip_section E s t) = (if is_success s then [receipt_canvas E s t] else [])"
proof (cases "create_parking_slip E s t SLIP_FILENAME")
  case (Pair r ev)
  with saved_create_parking_slip [of E s t SLIP_FILENAME]
  have "saved_canvases ev = [receipt_canvas E s t]" by simp
  with Pair show ?thesis
    by (simp add: slip_section_def saved_canvases_append split: option.splits)
qed

lemma saved_result_message:
  "saved_canvases (result_message s # evs) = saved_canvases evs"
  by (simp add: result_message_def)

lemma saved_detect_and_ocr: "saved_canvases (snd (detect_and_ocr img y r)) = []"
  by (simp add: detect_and_ocr_def Let_def split: option.splits sum.splits list.splits)

lemma no_box_text:
  "detect_and_ocr img y (Some r) = ((None, s, c, i), ev) \<Longrightarrow>
     s = ''Processing Error'' \<or> s = ''No plate detected''"
  by (auto simp: detect_and_ocr_def Let_def split: sum.splits list.splits if_splits)

lemma failure_texts:
  "\<not> is_success ''Processing Error''" "\<not> is_success ''No plate detected''"
  "\<not> is_success ''Crop Error''"
  by code_simp+

lemma saved_show_results:
  assumes "imdecode E file_bytes = Some img"
    "detect_and_ocr img (yolo E) (Some (readtext E)) =
       ((detection_box, plate_text_result, cropped_img, ocr_input_img), ev)"
  shows "saved_canvases (show_results E file_bytes) =
     (if is_success plate_text_result then [receipt_canvas E plate_text_result (now E)] else [])"
proof -
  from saved_detect_and_ocr [of img "yolo E" "Some (readtext E)"] assms(2)
  have ev: "saved_canvases ev = []" by simp
  show ?thesis
  proof (cases detection_box)
    case None
    with assms(2) no_box_text have "\<not> is_success plate_text_result"
      using failure_texts by blast
    with None assms ev show ?thesis
      by (simp add: show_results_def saved_canvases_append)
  next
    case (Some b)
    with assms ev show ?thesis
      by (simp add: show_results_def saved_canvases_append saved_slip_section
          saved_result_message Let_def)
  qed
qed

text \<open>
  C10, as the code has it. In the interactive variant a plate text is a success exactly when
  it is not empty and its lower-cased form contains none of \<^verbatim>\<open>error\<close>,
  \<^verbatim>\<open>failed\<close>, \<^verbatim>\<open>no plate\<close>, \<^verbatim>\<open>n/a\<close> and \<^verbatim>\<open>crop\<close>; the page draws a slip
  exactly when the text of \<^verbatim>\<open>detect_and_ocr\<close> is a success. So a recognised plate whose
  reading contains \<^verbatim>\<open>CROP\<close> gets no slip. A reading of the filter never contains
  \<^verbatim>\<open>n/a\<close>, since it has no slash.
\<close>

theorem success_by_substring:
  assumes "imdecode E file_bytes = Some img"
    "detect_and_ocr img (yolo E) (Some (readtext E)) =
       ((detection_box, plate_text_result, cropped_img, ocr_input_img), ev)"
  shows "(is_success s \<longleftrightarrow>
       (s \<noteq> [] \<and> \<not> str_in ''error'' (lower s) \<and> \<not> str_in ''failed'' (lower s)
        \<and> \<not> str_in ''no plate'' (lower s) \<and> \<not> str_in ''n/a'' (lower s)
        \<and> \<not> str_in ''crop'' (lower s)))
    \<and> (saved_canvases (show_results E file_bytes) = [] \<longleftrightarrow> \<not> is_success plate_text_result)
    \<and> (str_in ''crop'' (lower plate_text_result) \<longrightarrow>
         saved_canvases (show_results E file_bytes) = [])
    \<and> (surviving spans \<noteq> [] \<longrightarrow> \<not> str_in ''n/a'' (lower (ocr_plate_text spans)))"
proof -
  have a: "saved_canvases (show_results E file_bytes) = [] \<longleftrightarrow> \<not> is_success plate_text_result"
    using saved_show_results [OF assms] by simp
  have b: "str_in ''crop'' (lower plate_text_result) \<longrightarrow>
         saved_canvases (show_results E file_bytes) = []"
    using a by (simp add: is_success_iff)
  show ?thesis
    using a b is_success_iff [of s] reading_never_na [of spans] by blast
qed

theorem success_by_substring_witness:
  "ocr_plate_text [([], ''CROP'', 9 / 10), ([], ''1'', 9 / 10)] = ''CROP 1''
   \<and> \<not> is_success ''CROP 1''
   \<and> saved_canvases (show_results
        (sample_env [(10, 10, 50, 30)] [([], ''CROP'', 9 / 10), ([], ''1'', 9 / 10)]) []) = []"
proof -
  let ?E = "sample_env [(10, 10, 50, 30)] [([], ''CROP'', 9 / 10), ([], ''1'', 9 / 10)]"
  let ?img = "\<lparr>shape0 = 100, shape1 = 200\<rparr>"
  let ?crop = "crop_image 2 ?img (10, 10, 50, 30)"
  have h1: "imdecode ?E [] = Some ?img"
    by (simp add: sample_env_def)
  have e: "ocr_plate_text [([], ''CROP'', 9 / 10), ([], ''1'', 9 / 10)] = ''CROP 1''"
    by code_simp
  have z: "size_of ?crop \<noteq> 0"
    by code_simp
  have h2: "detect_and_ocr ?img (yolo ?E) (Some (readtext ?E)) =
      ((Some (10, 10, 50, 30), ''CROP 1'', Some ?crop, Some ?crop),
       [Detect ?img, ReadText ?crop])"
    using z by (simp add: detect_and_ocr_def sample_env_def e Let_def)
  have f: "\<not> is_success ''CROP 1''"
    by code_simp
  show ?thesis
    using success_by_substring [OF h1 h2] e f by simp
qed

text \<open>
  C10, as the claim states it, fails for a reading that contains \<^verbatim>\<open>NA\<close>: the reading
  \<^verbatim>\<open>NA 123\<close> is a success and its slip is drawn.
\<close>

theorem na_reading_succeeds:
  "ocr_plate_text [([], ''NA'', 9 / 10), ([], ''123'', 9 / 10)] = ''NA 123''
   \<and> is_success ''NA 123''
   \<and> map texts_drawn (saved_canvases (show_results
        (sample_env [(10, 10, 50, 30)] [([], ''NA'', 9 / 10), ([], ''123'', 9 / 10)]) [])) =
      [[''PARKING RECEIPT'', car_icon, ''Vehicle Plate'', ''NA 123'',
        calendar_icon, ''Entry Time'', ''03 Nov 2026, 19:17:05'',
        money_icon, ''Parking Fee'', ''Rs. 30.00'',
        ''SCAN'', ''Scan for details or payment.'', ''Powered by Downlabs'']]"
  by code_simp

section \<open>What a receipt carries\<close>

lemma texts_drawn_append: "texts_drawn (xs @ ys) = texts_drawn xs @ texts_drawn ys"
  by (induction xs rule: texts_drawn.induct) simp_all

lemma texts_draw_rows:
  "texts_drawn (draw_rows f_label f_value rs y) = concat (map (\<lambda>(label, v). [label, v]) rs)"
  by (induction f_label f_value rs y rule: draw_rows.induct) simp_all

lemma texts_draw_items:
  "texts_drawn (fst (draw_items font_icon font_text items y)) =
     concat (map (\<lambda>(icon, label, v, value_font). [icon, label, v]) items)"
  by (induction font_icon font_text items y rule: draw_items.induct)
    (auto split: prod.splits)

lemma texts_slip_canvas:
  "texts_drawn (slip_canvas E plate_text entry_time) =
     [''PARKING RECEIPT'',
      ''Vehicle Plate'', plate_text,
      ''Entry Time'', strftime ''%d %b %Y  %H:%M:%S'' entry_time,
      ''Parking Fee'', ''Rs. 30.00'',
      ''Status'', ''ACTIVE'',
      slip_footer]"
  by (simp add: slip_canvas_def Let_def texts_drawn_append texts_draw_rows slip_rows_def
      split: prod.splits)

lemma texts_content_items:
  assumes "draw_items font_icon font_text
       (content_items plate_text entry_time_obj font_text font_value_bold) y = (ops, y_end)"
  shows "texts_drawn ops =
     [car_icon, ''Vehicle Plate'', display_plate_text plate_text,
      calendar_icon, ''Entry Time'', strftime ''%d %b %Y, %H:%M:%S'' entry_time_obj,
      money_icon, ''Parking Fee'', ''Rs. 30.00'']"
proof -
  have "texts_drawn ops =
      concat (map (\<lambda>(icon, label, v, value_font). [icon, label, v])
        (content_items plate_text entry_time_obj font_text font_value_bold))"
    using texts_draw_items [of font_icon font_text
      "content_items plate_text entry_time_obj font_text font_value_bold" y] assms
    by simp
  then show ?thesis
    by (simp add: content_items_def)
qed

lemma texts_receipt_canvas:
  "texts_drawn (receipt_canvas E plate_text entry_time_obj) =
     [''PARKING RECEIPT'',
      car_icon, ''Vehicle Plate'', display_plate_text plate_text,
      calendar_icon, ''Entry Time'', strftime ''%d %b %Y, %H:%M:%S'' entry_time_obj,
      money_icon, ''Parking Fee'', ''Rs. 30.00'',
      ''SCAN'', ''Scan for details or payment.'', ''Powered by Downlabs'']"
  by (auto simp: receipt_canvas_def Let_def texts_drawn_append split: prod.splits
      dest!: texts_content_items)

lemma strftime_entry_time:
  "strftime ''%d %b %Y  %H:%M:%S'' t =
     two_digits (day t) @ '' '' @ month_abbr (month t) @ '' '' @ four_digits (year t) @ ''  ''
       @ two_digits (hour t) @ '':'' @ two_digits (minute t) @ '':'' @ two_digits (second t)"
  by (simp add: directive_def)

lemma strftime_entry_time_comma:
  "strftime ''%d %b %Y, %H:%M:%S'' t =
     two_digits (day t) @ '' '' @ month_abbr (month t) @ '' '' @ four_digits (year t) @ '', ''
       @ two_digits (hour t) @ '':'' @ two_digits (minute t) @ '':'' @ two_digits (second t)"
  by (simp add: directive_def)

text \<open>
  C8, as the code has it. For every plate text and entry time the service variant draws a
  canvas of 600 by 380 with the title, a divider, the four rows Vehicle Plate, Entry Time
  (day, month name, year, then hour, minute and second), Parking Fee \<^verbatim>\<open>Rs. 30.00\<close> and
  Status \<^verbatim>\<open>ACTIVE\<close>, and a footer. The interactive variant draws a canvas of 600 by 400
  with the title, a divider, three rows with their pictographs (Vehicle Plate, whose value
  is \<^verbatim>\<open>N/A\<close> for an empty text or one that holds \<^verbatim>\<open>failed\<close> or \<^verbatim>\<open>error\<close>, Entry
  Time and Parking Fee), the scan box with its two captions and a footer; it has no Status
  row.
\<close>

theorem receipt_contents:
  "hd (slip_canvas E plate_text entry_time) = NewImage 600 380 ''#0D0D1A''
   \<and> Line [(40, 75), (560, 75)] ''#4C1D95'' 1 \<in> set (slip_canvas E plate_text entry_time)
   \<and> texts_drawn (slip_canvas E plate_text entry_time) =
     [''PARKING RECEIPT'',
      ''Vehicle Plate'', plate_text,
      ''Entry Time'', strftime ''%d %b %Y  %H:%M:%S'' entry_time,
      ''Parking Fee'', ''Rs. 30.00'',
      ''Status'', ''ACTIVE'',
      slip_footer]
   \<and> strftime ''%d %b %Y  %H:%M:%S'' entry_time =
     two_digits (day entry_time) @ '' '' @ month_abbr (month entry_time) @ '' ''
       @ four_digits (year entry_time) @ ''  '' @ two_digits (hour entry_time) @ '':''
       @ two_digits (minute entry_time) @ '':'' @ two_digits (second entry_time)
   \<and> hd (receipt_canvas E plate_text entry_time) = NewImage 600 400 ''#F8F9FA''
   \<and> Line [(35, 60 + text_height E ''PARKING RECEIPT'' (fst (fst (receipt_fonts E)))),
            (565, 60 + text_height E ''PARKING RECEIPT'' (fst (fst (receipt_fonts E))))]
        ''#BDC3C7'' 1 \<in> set (receipt_canvas E plate_text entry_time)
   \<and> texts_drawn (receipt_canvas E plate_text entry_time) =
     [''PARKING RECEIPT'',
      car_icon, ''Vehicle Plate'', display_plate_text plate_text,
      calendar_icon, ''Entry Time'', strftime ''%d %b %Y, %H:%M:%S'' entry_time,
      money_icon, ''Parking Fee'', ''Rs. 30.00'',
      ''SCAN'', ''Scan for details or payment.'', ''Powered by Downlabs'']
   \<and> strftime ''%d %b %Y, %H:%M:%S'' entry_time =
     two_digits (day entry_time) @ '' '' @ month_abbr (month entry_time) @ '' ''
       @ four_digits (year entry_time) @ '', '' @ two_digits (hour entry_time) @ '':''
       @ two_digits (minute entry_time) @ '':'' @ two_digits (second entry_time)"
proof -
  have a: "hd (slip_canvas E plate_text entry_time) = NewImage 600 380 ''#0D0D1A''"
    by (simp add: slip_canvas_def Let_def case_prod_beta)
  have b: "Line [(40, 75), (560, 75)] ''#4C1D95'' 1 \<in> set (slip_canvas E plate_text entry_time)"
    by (simp add: slip_canvas_def Let_def case_prod_beta)
  have c: "hd (receipt_canvas E plate_text entry_time) = NewImage 600 400 ''#F8F9FA''"
    by (simp add: receipt_canvas_def Let_def case_prod_beta)
  have d: "Line [(35, 60 + text_height E ''PARKING RECEIPT'' (fst (fst (receipt_fonts E)))),
            (565, 60 + text_height E ''PARKING RECEIPT'' (fst (fst (receipt_fonts E))))]
        ''#BDC3C7'' 1 \<in> set (receipt_canvas E plate_text entry_time)"
    by (simp add: receipt_canvas_def Let_def case_prod_beta)
  show ?thesis
    using a b c d texts_slip_canvas [of E plate_text entry_time]
      texts_receipt_canvas [of E plate_text entry_time]
      strftime_entry_time [of entry_time] strftime_entry_time_comma [of entry_time]
    by blast
qed

text \<open>
  C8, as the claim states it, fails in the interactive variant: the receipt of the reading
  \<^verbatim>\<open>ABC123\<close> carries neither \<^verbatim>\<open>Status\<close> nor \<^verbatim>\<open>ACTIVE\<close>.
\<close>

theorem interactive_receipt_has_no_status:
  "texts_drawn (receipt_canvas (sample_env [] []) ''ABC123''
      \<lparr>year = 2026, month = 11, day = 3, hour = 19, minute = 17, second = 5\<rparr>) =
     [''PARKING RECEIPT'',
      car_icon, ''Vehicle Plate'', ''ABC123'',
      calendar_icon, ''Entry Time'', ''03 Nov 2026, 19:17:05'',
      money_icon, ''Parking Fee'', ''Rs. 30.00'',
      ''SCAN'', ''Scan for details or payment.'', ''Powered by Downlabs'']
   \<and> ''Status'' \<notin> set (texts_drawn (receipt_canvas (sample_env [] []) ''ABC123''
      \<lparr>year = 2026, month = 11, day = 3, hour = 19, minute = 17, second = 5\<rparr>))
   \<and> ''ACTIVE'' \<notin> set (texts_drawn (receipt_canvas (sample_env [] []) ''ABC123''
      \<lparr>year = 2026, month = 11, day = 3, hour = 19, minute = 17, second = 5\<rparr>))"
proof -
  have d: "display_plate_text ''ABC123'' = ''ABC123''"
    by code_simp
  have t: "strftime ''%d %b %Y, %H:%M:%S''
      \<lparr>year = 2026, month = 11, day = 3, hour = 19, minute = 17, second = 5\<rparr>
      = ''03 Nov 2026, 19:17:05''"
    by code_simp
  show ?thesis
    unfolding texts_receipt_canvas d t
    by (simp add: car_icon_def calendar_icon_def money_icon_def)
qed

section \<open>An empty crop\<close>

lemma recogniser_result_message:
  "recogniser_calls (result_message s # evs) = recogniser_calls evs"
  by (simp add: result_message_def)










end
